theory Spec2Isabelle
  imports Main "HOL-Library.AList"
begin

section \<open>JavaScript values and store items\<close>

text \<open>
  The user controller works on untyped JavaScript values: request fields, the attributes
  of the records read from the store, and the objects it sends back. Numbers are
  integers, which is all the controller computes with (a counter of attempts,
  timestamps in milliseconds); \<open>NaN\<close> is written out where a date fails to parse.
  \<open>JBuf b\<close> is a byte buffer (a stored hash); \<open>JObj\<close> is a plain object, its
  fields in insertion order.
\<close>

datatype jsval =
    JUndefined
  | JNull
  | JBool bool
  | JNum int
  | JStr string
  | JBuf string
  | JObj "(string \<times> jsval) list"

text \<open>JavaScript truthiness, as used by \<open>!x\<close>, \<open>x && y\<close> and \<open>if (x)\<close>.\<close>

fun truthy :: "jsval \<Rightarrow> bool" where
  "truthy JUndefined = False"
| "truthy JNull = False"
| "truthy (JBool b) = b"
| "truthy (JNum n) = (n \<noteq> 0)"
| "truthy (JStr s) = (s \<noteq> [])"
| "truthy (JBuf b) = True"
| "truthy (JObj fs) = True"

text \<open>
  A store item is a finite map from attribute names to values; reading an attribute that
  the item does not have gives \<open>undefined\<close>, as \<open>user['x']\<close> does. The same reading is
  used for a field of a request object.
\<close>

type_synonym item = "string \<rightharpoonup> jsval"

definition attr :: "item \<Rightarrow> string \<Rightarrow> jsval" where
  "attr it a = (case it a of None \<Rightarrow> JUndefined | Some v \<Rightarrow> v)"

fun js_field :: "jsval \<Rightarrow> string \<Rightarrow> jsval" where
  "js_field (JObj fs) a = (case map_of fs a of None \<Rightarrow> JUndefined | Some v \<Rightarrow> v)"
| "js_field _ a = JUndefined"

text \<open>The names of \<open>statusCodes\<close>; the module that gives them numbers is not needed here.\<close>

datatype status_code =
    Success
  | BadRequest
  | Unauthorized
  | PaymentRequired
  | Forbidden
  | NotFound
  | Conflict
  | InternalServerError

text \<open>
  An HTTP or WebSocket response: \<open>res.status(s).send(b)\<close>,
  \<open>responseBuilder.errorResponse(s, b)\<close>, and with status \<open>Success\<close>
  \<open>res.send(b)\<close> and \<open>responseBuilder.successResponse(b)\<close>. A thrown
  \<open>{ status, error }\<close> object is the pair of its two fields.
\<close>

type_synonym response = "status_code \<times> jsval"


text \<open>
  What the controller can throw: \<open>new Error(msg)\<close>, a \<open>TypeError\<close> of the runtime
  (\<open>Buffer.equals\<close> on something that is no buffer, a string method on a non-string),
  an object thrown with \<open>throw { ... }\<close>, and the two ways a store call can fail: its
  \<open>ConditionalCheckFailedException\<close> (the \<open>ConditionExpression\<close> was false) and any
  other failure of the service.
\<close>

datatype exn =
    Error string
  | TypeError
  | Thrown jsval
  | ConditionalCheckFailedException
  | ServiceFailure

text \<open>\<open>e.error\<close> of a caught value.\<close>

fun exn_error :: "exn \<Rightarrow> jsval" where
  "exn_error (Thrown v) = js_field v ''error''"
| "exn_error _ = JUndefined"

section \<open>Constants\<close>

definition HOURS_IN_A_DAY :: int where "HOURS_IN_A_DAY = 24"
definition SECONDS_IN_A_DAY :: int where "SECONDS_IN_A_DAY = 60 * 60 * HOURS_IN_A_DAY"
definition MS_IN_A_DAY :: int where "MS_IN_A_DAY = 1000 * SECONDS_IN_A_DAY"
definition MAX_USERNAME_CHAR_LENGTH :: nat where "MAX_USERNAME_CHAR_LENGTH = 100"
definition MAX_PROFILE_OBJECT_KEY_CHAR_LENGTH :: nat where "MAX_PROFILE_OBJECT_KEY_CHAR_LENGTH = 20"
definition MAX_PROFILE_OBJECT_VALUE_CHAR_LENGTH :: nat where
  "MAX_PROFILE_OBJECT_VALUE_CHAR_LENGTH = 1000"
definition MAX_PROFILE_OBJECT_KEYS :: nat where "MAX_PROFILE_OBJECT_KEYS = 100"
definition LIMIT_NUM_TRIAL_USERS :: nat where "LIMIT_NUM_TRIAL_USERS = 3"
definition MAX_INCORRECT_PASSWORD_GUESSES :: int where "MAX_INCORRECT_PASSWORD_GUESSES = 25"

section \<open>Collaborators\<close>

text \<open>
  The clock, the random sources, and the functions of the runtime and of modules outside
  the user controller (\<open>crypto\<close>, \<open>utils\<close>, the app and admin controllers), passed in
  as one record: \<open>now\<close> is \<open>new Date()\<close> in milliseconds, \<open>parseDate\<close> is
  \<open>new Date(string)\<close> (\<open>None\<close> for an invalid date), \<open>uuidv4\<close> and the two random
  strings are the values drawn during the call.
\<close>

record env =
  now :: int
  toISOString :: "int \<Rightarrow> string"
  parseDate :: "string \<Rightarrow> int option"
  sha256 :: "jsval \<Rightarrow> string"
  base64 :: "string \<Rightarrow> string"
  toLowerCase :: "string \<Rightarrow> string"
  validateEmail :: "jsval \<Rightarrow> bool"
  uuidv4 :: string
  randomSessionId :: string
  randomAuthToken :: string
  getTtl :: "int \<Rightarrow> jsval"
  countNonDeletedAppUsers :: "jsval \<Rightarrow> nat \<Rightarrow> nat"
  prodPaymentsEnabled :: "item \<Rightarrow> bool"

text \<open>
  \<open>new Date(v)\<close> as a number of milliseconds, \<open>None\<close> for \<open>NaN\<close>; and the two
  comparisons of a difference of dates with a number, false when either date is \<open>NaN\<close>.
\<close>

fun newDate :: "env \<Rightarrow> jsval \<Rightarrow> int option" where
  "newDate e (JStr s) = parseDate e s"
| "newDate e (JNum n) = Some n"
| "newDate e JNull = Some 0"
| "newDate e (JBool b) = Some (if b then 1 else 0)"
| "newDate e JUndefined = None"
| "newDate e (JBuf b) = None"
| "newDate e (JObj fs) = None"

definition elapsed_lt :: "env \<Rightarrow> jsval \<Rightarrow> int \<Rightarrow> bool" where
  "elapsed_lt e d k = (case newDate e d of None \<Rightarrow> False | Some t \<Rightarrow> now e - t < k)"

definition elapsed_gt :: "env \<Rightarrow> jsval \<Rightarrow> int \<Rightarrow> bool" where
  "elapsed_gt e d k = (case newDate e d of None \<Rightarrow> False | Some t \<Rightarrow> now e - t > k)"

text \<open>
  \<open>v >= k\<close> for a number \<open>k\<close>. The only attribute compared this way is the counter of
  incorrect attempts, which the store only ever holds as a number; a value that is no
  number and no boolean or \<open>null\<close> is read as \<open>NaN\<close>.
\<close>

fun js_ge :: "jsval \<Rightarrow> int \<Rightarrow> bool" where
  "js_ge (JNum n) k = (n \<ge> k)"
| "js_ge JNull k = (0 \<ge> k)"
| "js_ge (JBool b) k = ((if b then 1 else 0) \<ge> k)"
| "js_ge _ k = False"

section \<open>The record store\<close>

text \<open>
  A table is a list of key and item pairs with one entry per key. The users table is keyed
  by \<open>(username, app-id)\<close>, the sessions table by \<open>session-id\<close>. Apps and admins are
  read only, through \<open>appController.getAppByAppId\<close> and
  \<open>adminController.findAdminByAdminId\<close>. \<open>ddb_up\<close> says whether the service
  answers: when it does not, every call fails with \<open>ServiceFailure\<close>.
\<close>

type_synonym 'k table = "('k \<times> item) list"

record world =
  users :: "(jsval \<times> jsval) table"
  sessions :: "jsval table"
  apps :: "jsval \<rightharpoonup> item"
  admins :: "jsval \<rightharpoonup> item"
  ddb_up :: bool

text \<open>Condition expressions, evaluated on the item stored under the key, if any.\<close>

definition attribute_exists :: "string \<Rightarrow> item option \<Rightarrow> bool" where
  "attribute_exists a stored = (case stored of None \<Rightarrow> False | Some it \<Rightarrow> it a \<noteq> None)"

definition attribute_not_exists :: "string \<Rightarrow> item option \<Rightarrow> bool" where
  "attribute_not_exists a stored = (\<not> attribute_exists a stored)"

definition attribute_eq :: "string \<Rightarrow> jsval \<Rightarrow> item option \<Rightarrow> bool" where
  "attribute_eq a v stored = (case stored of None \<Rightarrow> False | Some it \<Rightarrow> it a = Some v)"

text \<open>
  The store's \<open><\<close>: numbers by value, strings by their characters from the left; values
  of different types are not comparable and the comparison is false.
\<close>

fun str_lt :: "string \<Rightarrow> string \<Rightarrow> bool" where
  "str_lt [] [] = False"
| "str_lt [] (y # ys) = True"
| "str_lt (x # xs) [] = False"
| "str_lt (x # xs) (y # ys) =
     ((of_char x :: nat) < of_char y \<or> (x = y \<and> str_lt xs ys))"

fun ddb_lt :: "jsval \<Rightarrow> jsval \<Rightarrow> bool" where
  "ddb_lt (JNum a) (JNum b) = (a < b)"
| "ddb_lt (JStr a) (JStr b) = str_lt a b"
| "ddb_lt (JBuf a) (JBuf b) = str_lt a b"
| "ddb_lt _ _ = False"

definition attribute_lt :: "string \<Rightarrow> jsval \<Rightarrow> item option \<Rightarrow> bool" where
  "attribute_lt a v stored =
     (case stored of None \<Rightarrow> False
      | Some it \<Rightarrow> (case it a of None \<Rightarrow> False | Some x \<Rightarrow> ddb_lt x v))"

text \<open>
  \<open>get\<close>, \<open>put\<close>, \<open>update\<close> and a query on an index. \<open>update\<close> is an upsert: with no
  item under the key it starts from an item holding the key attributes alone.
\<close>

definition ddb_get :: "bool \<Rightarrow> 'k table \<Rightarrow> 'k \<Rightarrow> exn + item option" where
  "ddb_get up tbl k = (if \<not> up then Inl ServiceFailure else Inr (map_of tbl k))"

definition ddb_put ::
  "bool \<Rightarrow> 'k table \<Rightarrow> 'k \<Rightarrow> item \<Rightarrow> (item option \<Rightarrow> bool) \<Rightarrow> exn + 'k table" where
  "ddb_put up tbl k it cond =
     (if \<not> up then Inl ServiceFailure
      else if \<not> cond (map_of tbl k) then Inl ConditionalCheckFailedException
      else Inr (AList.update k it tbl))"

definition ddb_update ::
  "bool \<Rightarrow> 'k table \<Rightarrow> 'k \<Rightarrow> item \<Rightarrow> (item option \<Rightarrow> bool) \<Rightarrow> (item \<Rightarrow> item) \<Rightarrow> exn + 'k table" where
  "ddb_update up tbl k keyAttrs cond upd =
     (if \<not> up then Inl ServiceFailure
      else if \<not> cond (map_of tbl k) then Inl ConditionalCheckFailedException
      else Inr (AList.update k
                  (upd (case map_of tbl k of None \<Rightarrow> keyAttrs | Some it \<Rightarrow> it)) tbl))"

definition ddb_query :: "bool \<Rightarrow> 'k table \<Rightarrow> string \<Rightarrow> jsval \<Rightarrow> exn + item list" where
  "ddb_query up tbl a v =
     (if \<not> up then Inl ServiceFailure
      else Inr (map snd (filter (\<lambda>(k, it). it a = Some v) tbl)))"

definition user_key_attrs :: "jsval \<Rightarrow> jsval \<Rightarrow> item" where
  "user_key_attrs username appId = [''username'' \<mapsto> username, ''app-id'' \<mapsto> appId]"

definition getAppByAppId :: "world \<Rightarrow> jsval \<Rightarrow> exn + item option" where
  "getAppByAppId w appId = (if \<not> ddb_up w then Inl ServiceFailure else Inr (apps w appId))"

definition findAdminByAdminId :: "world \<Rightarrow> jsval \<Rightarrow> exn + item option" where
  "findAdminByAdminId w adminId =
     (if \<not> ddb_up w then Inl ServiceFailure else Inr (admins w adminId))"

text \<open>\<open>getUser(appId, username)\<close>: a read by primary key.\<close>

definition getUser :: "world \<Rightarrow> jsval \<Rightarrow> jsval \<Rightarrow> exn + item option" where
  "getUser w appId username = ddb_get (ddb_up w) (users w) (username, appId)"

text \<open>
  \<open>getUserByUserId(userId)\<close>: a query on the user id index; more than one user under
  one id is raised as an \<open>Error\<close>.
\<close>

definition getUserByUserId :: "world \<Rightarrow> jsval \<Rightarrow> exn + item option" where
  "getUserByUserId w userId =
     (case ddb_query (ddb_up w) (users w) ''user-id'' userId of
        Inl e \<Rightarrow> Inl e
      | Inr items \<Rightarrow>
          (if length items = 0 then Inr None
           else if length items > 1 then Inl (Error ''Too many users found with id'')
           else Inr (Some (hd items))))"

text \<open>
  A write whose promise is not awaited (\<open>ddbClient.update(params).promise()\<close> with no
  \<open>await\<close>): it is applied if it succeeds, and its failure reaches nobody.
\<close>

definition fire_and_forget :: "world \<Rightarrow> exn + world \<Rightarrow> world" where
  "fire_and_forget w r = (case r of Inl e \<Rightarrow> w | Inr w' \<Rightarrow> w')"

section \<open>Sessions\<close>

text \<open>\<open>createSession(userId, appId)\<close>: an unconditional put of a fresh session.\<close>

definition createSession :: "env \<Rightarrow> jsval \<Rightarrow> jsval \<Rightarrow> world \<Rightarrow> exn + (world \<times> jsval)" where
  "createSession e userId appId w =
     (let sessionId = JStr (randomSessionId e);
          authToken = JStr (randomAuthToken e);
          creationDate = JStr (toISOString e (now e));
          session = [''session-id'' \<mapsto> sessionId,
                     ''auth-token'' \<mapsto> authToken,
                     ''user-id'' \<mapsto> userId,
                     ''app-id'' \<mapsto> appId,
                     ''creation-date'' \<mapsto> creationDate,
                     ''ttl'' \<mapsto> getTtl e SECONDS_IN_A_DAY]
      in case ddb_put (ddb_up w) (sessions w) sessionId session (\<lambda>stored. True) of
           Inl ex \<Rightarrow> Inl ex
         | Inr tbl \<Rightarrow>
             Inr (w\<lparr>sessions := tbl\<rparr>,
                  JObj [(''sessionId'', sessionId), (''authToken'', authToken),
                        (''creationDate'', creationDate)]))"

text \<open>\<open>signOut(sessionId)\<close>: an update with no condition, so an upsert.\<close>

definition signOut :: "jsval \<Rightarrow> world \<Rightarrow> world \<times> response" where
  "signOut sessionId w =
     (if \<not> truthy sessionId then (w, (Unauthorized, JStr ''Missing session id''))
      else
        case ddb_update (ddb_up w) (sessions w) sessionId [''session-id'' \<mapsto> sessionId]
               (\<lambda>stored. True) (\<lambda>it. it(''invalidated'' \<mapsto> JBool True)) of
          Inr tbl \<Rightarrow> (w\<lparr>sessions := tbl\<rparr>, (Success, JStr ''Success!''))
        | Inl ex \<Rightarrow> (w, (InternalServerError, JStr ''Failed to sign out!'')))"

section \<open>Sign-up\<close>

text \<open>
  How a handler's \<open>try\<close> block ends early: with a thrown \<open>{ status, error }\<close> object,
  which the handler sends as it is, or with any other exception, which it turns into an
  internal server error.
\<close>

datatype failure = Respond status_code jsval | Raise exn

text \<open>The fields of the sign-up request: \<open>req.query.appId\<close> and the fields of \<open>req.body\<close>.\<close>

record signup_req =
  req_appId :: jsval
  req_username :: jsval
  req_passwordToken :: jsval
  req_publicKey :: jsval
  req_passwordSalts :: jsval
  req_keySalts :: jsval
  req_email :: jsval
  req_profile :: jsval
  req_passwordBasedBackup :: jsval

text \<open>\<open>s.toLowerCase()\<close>, a \<open>TypeError\<close> on a value that is no string.\<close>

fun js_toLowerCase :: "env \<Rightarrow> jsval \<Rightarrow> exn + jsval" where
  "js_toLowerCase e (JStr s) = Inr (JStr (toLowerCase e s))"
| "js_toLowerCase e _ = Inl TypeError"

text \<open>\<open>_validateUsernameInput\<close>; the left summand is the thrown object.\<close>

definition validateUsernameInput :: "jsval \<Rightarrow> jsval + unit" where
  "validateUsernameInput username =
     (case username of
        JStr s \<Rightarrow>
          if s = [] then Inl (JObj [(''error'', JStr ''UsernameCannotBeBlank'')])
          else if length s > MAX_USERNAME_CHAR_LENGTH then
            Inl (JObj [(''error'', JStr ''UsernameTooLong''),
                       (''maxLen'', JNum (int MAX_USERNAME_CHAR_LENGTH))])
          else Inr ()
      | _ \<Rightarrow> Inl (JObj [(''error'', JStr ''UsernameMustBeString'')]))"

text \<open>
  \<open>_validateProfile\<close>: the loop over the keys of the profile, with its counter, and
  the check after it. \<open>typeof\<close> is \<open>object\<close> for a plain object, for \<open>null\<close>
  (no keys) and for a buffer (its keys are its indices, its values numbers).
\<close>

fun validateProfileKeys :: "(string \<times> jsval) list \<Rightarrow> nat \<Rightarrow> jsval + nat" where
  "validateProfileKeys [] counter = Inr counter"
| "validateProfileKeys ((key, val) # rest) counter =
     (if length key > MAX_PROFILE_OBJECT_KEY_CHAR_LENGTH then
        Inl (JObj [(''error'', JStr ''ProfileKeyTooLong''),
                   (''message'', JStr ''Profile key too long. Must be a max of 20 characters.''),
                   (''key'', JStr key),
                   (''maxLen'', JNum (int MAX_PROFILE_OBJECT_KEY_CHAR_LENGTH))])
      else
        case val of
          JStr v \<Rightarrow>
            if v = [] then
              Inl (JObj [(''error'', JStr ''ProfileValueCannotBeBlank''),
                         (''message'', JStr ''Profile value cannot be blank.''),
                         (''key'', JStr key)])
            else if length v > MAX_PROFILE_OBJECT_VALUE_CHAR_LENGTH then
              Inl (JObj [(''error'', JStr ''ProfileValueTooLong''),
                         (''message'',
                            JStr ''Profile value too long. Must be a max of 1000 characters.''),
                         (''key'', JStr key), (''value'', val),
                         (''maxLen'', JNum (int MAX_PROFILE_OBJECT_VALUE_CHAR_LENGTH))])
            else if counter + 1 > MAX_PROFILE_OBJECT_KEYS then
              Inl (JObj [(''error'', JStr ''ProfileHasTooManyKeys''),
                         (''message'',
                            JStr ''Profile has too many keys. Must have a max of 100 keys.''),
                         (''maxKeys'', JNum (int MAX_PROFILE_OBJECT_KEYS))])
            else validateProfileKeys rest (counter + 1)
        | _ \<Rightarrow>
            Inl (JObj [(''error'', JStr ''ProfileValueMustBeString''),
                       (''message'', JStr ''Profile value must be a string.''),
                       (''key'', JStr key), (''value'', val)]))"

definition profileCannotBeEmpty :: jsval where
  "profileCannotBeEmpty =
     JObj [(''error'', JStr ''ProfileCannotBeEmpty''),
           (''message'', JStr ''Profile cannot be empty.'')]"

definition validateProfile :: "jsval \<Rightarrow> jsval + unit" where
  "validateProfile profile =
     (case profile of
        JObj fs \<Rightarrow>
          (case validateProfileKeys fs 0 of
             Inl thrown \<Rightarrow> Inl thrown
           | Inr counter \<Rightarrow> if counter = 0 then Inl profileCannotBeEmpty else Inr ())
      | JNull \<Rightarrow> Inl profileCannotBeEmpty
      | JBuf b \<Rightarrow>
          (case b of
             [] \<Rightarrow> Inl profileCannotBeEmpty
           | c # cs \<Rightarrow>
               Inl (JObj [(''error'', JStr ''ProfileValueMustBeString''),
                          (''message'', JStr ''Profile value must be a string.''),
                          (''key'', JStr ''0''), (''value'', JNum (of_char c))]))
      | _ \<Rightarrow>
          Inl (JObj [(''error'', JStr ''ProfileMustBeObject''),
                     (''message'', JStr ''Profile must be a flat JSON object.'')]))"

text \<open>
  \<open>_validateSignUpInput\<close>: whatever is thrown inside becomes the message of a
  \<open>Bad Request\<close>.
\<close>

definition validateSignUpInput :: "env \<Rightarrow> signup_req \<Rightarrow> jsval + unit" where
  "validateSignUpInput e req =
     (if \<not> truthy (req_appId req) \<or> \<not> truthy (req_username req)
         \<or> \<not> truthy (req_passwordToken req) \<or> \<not> truthy (req_publicKey req)
         \<or> \<not> truthy (req_passwordSalts req) \<or> \<not> truthy (req_keySalts req)
         \<or> \<not> truthy (req_passwordBasedBackup req)
      then Inl (JStr ''Missing required items'')
      else if \<not> truthy (js_field (req_passwordSalts req) ''passwordSalt'')
         \<or> \<not> truthy (js_field (req_passwordSalts req) ''passwordTokenSalt'')
         \<or> \<not> truthy (js_field (req_keySalts req) ''encryptionKeySalt'')
         \<or> \<not> truthy (js_field (req_keySalts req) ''dhKeySalt'')
         \<or> \<not> truthy (js_field (req_keySalts req) ''hmacKeySalt'')
      then Inl (JStr ''Missing required salts'')
      else if \<not> truthy (js_field (req_passwordBasedBackup req) ''passwordBasedEncryptionKeySalt'')
         \<or> \<not> truthy (js_field (req_passwordBasedBackup req) ''passwordEncryptedSeed'')
      then Inl (JStr ''Missing password-based backup items'')
      else
        case validateUsernameInput (req_username req) of
          Inl thrown \<Rightarrow> Inl thrown
        | Inr _ \<Rightarrow>
            if truthy (req_email req) \<and> \<not> validateEmail e (req_email req) then
              Inl (JObj [(''error'', JStr ''EmailNotValid''), (''email'', req_email req)])
            else if truthy (req_profile req) then validateProfile (req_profile req)
            else Inr ())"

text \<open>\<open>_validateSubscription(status, cancelAt, appId)\<close>: the limit on trial users.\<close>

definition validateSubscription :: "env \<Rightarrow> jsval \<Rightarrow> jsval \<Rightarrow> jsval \<Rightarrow> failure + unit" where
  "validateSubscription e status cancelAt appId =
     (let unpaidSubscription = (status \<noteq> JStr ''active'' \<or> truthy cancelAt)
      in if unpaidSubscription
            \<and> countNonDeletedAppUsers e appId LIMIT_NUM_TRIAL_USERS \<ge> LIMIT_NUM_TRIAL_USERS
         then Inl (Respond PaymentRequired (JStr ''TrialExceededLimit''))
         else Inr ())"

text \<open>
  The app and its admin, as \<open>signUp\<close> and \<open>signIn\<close> both resolve them before touching
  the user: a missing or deleted app or admin gives the same \<open>App ID not valid\<close>.
\<close>

definition lookupAppAndAdmin :: "world \<Rightarrow> jsval \<Rightarrow> failure + (item \<times> item)" where
  "lookupAppAndAdmin w appId =
     (case getAppByAppId w appId of
        Inl ex \<Rightarrow> Inl (Raise ex)
      | Inr None \<Rightarrow> Inl (Respond Unauthorized (JStr ''App ID not valid''))
      | Inr (Some app) \<Rightarrow>
          if truthy (attr app ''deleted'') then
            Inl (Respond Unauthorized (JStr ''App ID not valid''))
          else
            (case findAdminByAdminId w (attr app ''admin-id'') of
               Inl ex \<Rightarrow> Inl (Raise ex)
             | Inr None \<Rightarrow> Inl (Respond Unauthorized (JStr ''App ID not valid''))
             | Inr (Some admin) \<Rightarrow>
                 if truthy (attr admin ''deleted'') then
                   Inl (Respond Unauthorized (JStr ''App ID not valid''))
                 else Inr (app, admin)))"

text \<open>
  \<open>_buildSignUpParams\<close>: the new user item. Its condition expression is
  \<open>signUpCondition\<close>: the username is free, or its record has not saved its seed yet.
\<close>

definition buildSignUpItem :: "env \<Rightarrow> signup_req \<Rightarrow> jsval \<Rightarrow> exn + item" where
  "buildSignUpItem e req userId =
     (case js_toLowerCase e (req_username req) of
        Inl ex \<Rightarrow> Inl ex
      | Inr username \<Rightarrow>
          let user = [''username'' \<mapsto> username,
                      ''password-token'' \<mapsto> JBuf (sha256 e (req_passwordToken req)),
                      ''password-salt'' \<mapsto> js_field (req_passwordSalts req) ''passwordSalt'',
                      ''password-token-salt'' \<mapsto>
                         js_field (req_passwordSalts req) ''passwordTokenSalt'',
                      ''app-id'' \<mapsto> req_appId req,
                      ''user-id'' \<mapsto> userId,
                      ''public-key'' \<mapsto> req_publicKey req,
                      ''encryption-key-salt'' \<mapsto> js_field (req_keySalts req) ''encryptionKeySalt'',
                      ''diffie-hellman-key-salt'' \<mapsto> js_field (req_keySalts req) ''dhKeySalt'',
                      ''hmac-key-salt'' \<mapsto> js_field (req_keySalts req) ''hmacKeySalt'',
                      ''seed-not-saved-yet'' \<mapsto> JBool True,
                      ''creation-date'' \<mapsto> JStr (toISOString e (now e)),
                      ''password-based-encryption-key-salt'' \<mapsto>
                         js_field (req_passwordBasedBackup req) ''passwordBasedEncryptionKeySalt'',
                      ''password-encrypted-seed'' \<mapsto>
                         js_field (req_passwordBasedBackup req) ''passwordEncryptedSeed'']
          in (case (if truthy (req_email req) then js_toLowerCase e (req_email req)
                    else Inr JUndefined) of
                Inl ex \<Rightarrow> Inl ex
              | Inr email \<Rightarrow>
                  let user1 = (if truthy (req_email req) then user(''email'' \<mapsto> email) else user)
                  in Inr (if truthy (req_profile req)
                          then user1(''profile'' \<mapsto> req_profile req) else user1)))"

definition signUpCondition :: "item option \<Rightarrow> bool" where
  "signUpCondition stored =
     (attribute_not_exists ''username'' stored \<or> attribute_exists ''seed-not-saved-yet'' stored)"

text \<open>
  \<open>signUp\<close>: the \<open>try\<close> block, and the handler around it. The put is keyed by the
  item's own \<open>username\<close> and \<open>app-id\<close>.
\<close>

definition signUp_try :: "env \<Rightarrow> signup_req \<Rightarrow> world \<Rightarrow> world \<times> (failure + jsval)" where
  "signUp_try e req w =
     (case validateSignUpInput e req of
        Inl thrown \<Rightarrow> (w, Inl (Respond BadRequest thrown))
      | Inr _ \<Rightarrow>
          let userId = JStr (uuidv4 e) in
          (case lookupAppAndAdmin w (req_appId req) of
            Inl f \<Rightarrow> (w, Inl f)
          | Inr (app, admin) \<Rightarrow>
              (case validateSubscription e (attr admin ''stripe-saas-subscription-status'')
                      (attr admin ''stripe-cancel-saas-subscription-at'') (req_appId req) of
                 Inl f \<Rightarrow> (w, Inl f)
               | Inr _ \<Rightarrow>
                   (case buildSignUpItem e req userId of
                      Inl ex \<Rightarrow> (w, Inl (Raise ex))
                    | Inr user \<Rightarrow>
                        (case ddb_put (ddb_up w) (users w)
                                (attr user ''username'', attr user ''app-id'') user
                                signUpCondition of
                           Inl ConditionalCheckFailedException \<Rightarrow>
                             (w, Inl (Respond Conflict (JStr ''UsernameAlreadyExists'')))
                         | Inl ex \<Rightarrow> (w, Inl (Raise ex))
                         | Inr tbl \<Rightarrow>
                             (case createSession e userId (req_appId req) (w\<lparr>users := tbl\<rparr>) of
                                Inl ex \<Rightarrow> (w\<lparr>users := tbl\<rparr>, Inl (Raise ex))
                              | Inr (w2, session) \<Rightarrow>
                                  (w2, Inr (JObj [(''userId'', userId),
                                     (''sessionId'', js_field session ''sessionId''),
                                     (''authToken'', js_field session ''authToken''),
                                     (''creationDate'', js_field session ''creationDate'')]))))))))"

definition respond :: "string \<Rightarrow> world \<times> (failure + jsval) \<Rightarrow> world \<times> response" where
  "respond message r =
     (case r of
        (w, Inr result) \<Rightarrow> (w, (Success, result))
      | (w, Inl (Respond st msg)) \<Rightarrow> (w, (st, msg))
      | (w, Inl (Raise ex)) \<Rightarrow> (w, (InternalServerError, JStr message)))"

definition signUp :: "env \<Rightarrow> signup_req \<Rightarrow> world \<Rightarrow> world \<times> response" where
  "signUp e req w = respond ''Failed to sign up user'' (signUp_try e req w)"

section \<open>Password check and lockout\<close>

text \<open>
  The three bookkeeping writes. Each is an update keyed by the user's \<open>username\<close> and
  \<open>app-id\<close> with no condition, and none is awaited. \<open>add\<close> starts from 0 when the
  counter is absent and is rejected by the store when it is not a number.
\<close>

definition allowUserToRetryPassword :: "item \<Rightarrow> world \<Rightarrow> world" where
  "allowUserToRetryPassword user w =
     fire_and_forget w
       (case ddb_update (ddb_up w) (users w) (attr user ''username'', attr user ''app-id'')
               (user_key_attrs (attr user ''username'') (attr user ''app-id''))
               (\<lambda>stored. True)
               (\<lambda>it. (it(''suspended-at'' := None))
                        (''incorrect-password-attempts-in-a-row'' \<mapsto> JNum 0)) of
          Inl ex \<Rightarrow> Inl ex
        | Inr tbl \<Rightarrow> Inr (w\<lparr>users := tbl\<rparr>))"

definition suspendUser :: "env \<Rightarrow> item \<Rightarrow> world \<Rightarrow> world" where
  "suspendUser e user w =
     fire_and_forget w
       (case ddb_update (ddb_up w) (users w) (attr user ''username'', attr user ''app-id'')
               (user_key_attrs (attr user ''username'') (attr user ''app-id''))
               (\<lambda>stored. True)
               (\<lambda>it. it(''suspended-at'' \<mapsto> JStr (toISOString e (now e)))) of
          Inl ex \<Rightarrow> Inl ex
        | Inr tbl \<Rightarrow> Inr (w\<lparr>users := tbl\<rparr>))"

definition addOne :: "item option \<Rightarrow> bool" where
  "addOne stored =
     (case stored of
        None \<Rightarrow> True
      | Some it \<Rightarrow>
          (case it ''incorrect-password-attempts-in-a-row'' of
             None \<Rightarrow> True | Some (JNum n) \<Rightarrow> True | Some _ \<Rightarrow> False))"

definition incrementIncorrectPasswordAttempt :: "item \<Rightarrow> world \<Rightarrow> world" where
  "incrementIncorrectPasswordAttempt user w =
     fire_and_forget w
       (if \<not> ddb_up w \<or> \<not> addOne (map_of (users w) (attr user ''username'', attr user ''app-id''))
        then Inl ServiceFailure
        else
          case ddb_update (ddb_up w) (users w) (attr user ''username'', attr user ''app-id'')
                 (user_key_attrs (attr user ''username'') (attr user ''app-id''))
                 (\<lambda>stored. True)
                 (\<lambda>it. it(''incorrect-password-attempts-in-a-row'' \<mapsto>
                           (case it ''incorrect-password-attempts-in-a-row'' of
                              Some (JNum n) \<Rightarrow> JNum (n + 1) | _ \<Rightarrow> JNum 1))) of
            Inl ex \<Rightarrow> Inl ex
          | Inr tbl \<Rightarrow> Inr (w\<lparr>users := tbl\<rparr>))"

text \<open>\<open>buf.equals(v)\<close>: a \<open>TypeError\<close> (here \<open>None\<close>) when \<open>v\<close> is no buffer.\<close>

fun buffer_equals :: "string \<Rightarrow> jsval \<Rightarrow> bool option" where
  "buffer_equals h (JBuf b) = Some (h = b)"
| "buffer_equals h _ = None"

text \<open>
  The second half of \<open>_validatePassword\<close>, from the hashing of the supplied token
  on: the permanent password first, then the temporary one and its age. The value
  returned is \<open>false\<close> for the permanent password and the (true) value of
  \<open>tempPasswordIsCorrect\<close> for the temporary one.
\<close>

definition checkPasswordToken :: "env \<Rightarrow> jsval \<Rightarrow> item \<Rightarrow> world \<Rightarrow> world \<times> (exn + jsval)" where
  "checkPasswordToken e passwordToken user w =
     (let passwordTokenHash = sha256 e passwordToken in
      case buffer_equals passwordTokenHash (attr user ''password-token'') of
        None \<Rightarrow> (w, Inl TypeError)
      | Some True \<Rightarrow> (allowUserToRetryPassword user w, Inr (JBool False))
      | Some False \<Rightarrow>
          (case (if \<not> truthy (attr user ''temp-password-token'')
                 then Some (attr user ''temp-password-token'')
                 else map_option JBool
                        (buffer_equals passwordTokenHash (attr user ''temp-password-token''))) of
             None \<Rightarrow> (w, Inl TypeError)
           | Some tempPasswordIsCorrect \<Rightarrow>
               if \<not> truthy tempPasswordIsCorrect then
                 (incrementIncorrectPasswordAttempt user w,
                  Inl (Thrown (JObj [(''error'', JStr ''Incorrect password or temp password'')])))
               else if elapsed_gt e (attr user ''temp-password-creation-date'') MS_IN_A_DAY then
                 (incrementIncorrectPasswordAttempt user w,
                  Inl (Thrown (JObj [(''error'', JStr ''Temp password expired'')])))
               else (w, Inr tempPasswordIsCorrect)))"

text \<open>\<open>_validatePassword(passwordToken, user, req)\<close>; \<open>user\<close> is \<open>None\<close> when no record was found.\<close>

definition validatePassword ::
  "env \<Rightarrow> jsval \<Rightarrow> item option \<Rightarrow> world \<Rightarrow> world \<times> (exn + jsval)" where
  "validatePassword e passwordToken userOpt w =
     (case userOpt of
        None \<Rightarrow> (w, Inl (Error ''User does not exist''))
      | Some user \<Rightarrow>
          if js_ge (attr user ''incorrect-password-attempts-in-a-row'')
               MAX_INCORRECT_PASSWORD_GUESSES
          then
            let dateSuspended = attr user ''suspended-at'';
                w1 = (if \<not> truthy dateSuspended then suspendUser e user w else w)
            in if \<not> truthy dateSuspended \<or> elapsed_lt e dateSuspended MS_IN_A_DAY then
                 (w1, Inl (Thrown (JObj [(''error'', JStr ''PasswordAttemptLimitExceeded''),
                                         (''delay'', JStr ''24 hours'')])))
               else checkPasswordToken e passwordToken user (allowUserToRetryPassword user w1)
          else checkPasswordToken e passwordToken user w)"

text \<open>
  The lockout attributes of a record are consistent when a (truthy) \<open>suspended-at\<close>
  comes with a counter that has reached the limit. A new record has no \<open>suspended-at\<close>,
  and the three bookkeeping writes keep a record consistent (shown below).
\<close>

definition lockout_consistent :: "item \<Rightarrow> bool" where
  "lockout_consistent it =
     (if truthy (attr it ''suspended-at'')
      then js_ge (attr it ''incorrect-password-attempts-in-a-row'') MAX_INCORRECT_PASSWORD_GUESSES
      else True)"

section \<open>Sign-in\<close>

text \<open>
  The object \<open>signIn\<close> sends on success: \<open>session\<close> and \<open>userId\<close>, then the
  optional fields in the order the source adds them.
\<close>

definition signInResult :: "jsval \<Rightarrow> item \<Rightarrow> jsval \<Rightarrow> jsval" where
  "signInResult session user usedTempPassword =
     JObj ([(''session'', session), (''userId'', attr user ''user-id'')]
        @ (if truthy usedTempPassword then [(''usedTempPassword'', JBool True)] else [])
        @ (if truthy (attr user ''email'') then [(''email'', attr user ''email'')] else [])
        @ (if truthy (attr user ''profile'') then [(''profile'', attr user ''profile'')] else [])
        @ (if \<not> truthy usedTempPassword
              \<and> truthy (attr user ''password-based-encryption-key-salt'')
              \<and> truthy (attr user ''password-encrypted-seed'')
           then [(''passwordBasedBackup'',
                  JObj [(''passwordBasedEncryptionKeySalt'',
                           attr user ''password-based-encryption-key-salt''),
                        (''passwordEncryptedSeed'', attr user ''password-encrypted-seed'')])]
           else [])
        @ (if truthy (attr user ''protected-profile'')
           then [(''protectedProfile'', attr user ''protected-profile'')] else []))"

text \<open>What \<open>signIn\<close> sends when \<open>_validatePassword\<close> throws \<open>ex\<close>.\<close>

definition passwordFailure :: "exn \<Rightarrow> failure" where
  "passwordFailure ex =
     Respond Unauthorized
       (if exn_error ex = JStr ''PasswordAttemptLimitExceeded''
        then (case ex of Thrown v \<Rightarrow> v | _ \<Rightarrow> JUndefined)
        else JStr ''Invalid password'')"

definition signIn_try ::
  "env \<Rightarrow> jsval \<Rightarrow> jsval \<Rightarrow> jsval \<Rightarrow> world \<Rightarrow> world \<times> (failure + jsval)" where
  "signIn_try e appId username passwordToken w =
     (if \<not> truthy appId \<or> \<not> truthy username \<or> \<not> truthy passwordToken then
        (w, Inl (Respond BadRequest (JStr ''Missing required items'')))
      else
        case validateUsernameInput username of
          Inl thrown \<Rightarrow> (w, Inl (Respond BadRequest thrown))
        | Inr _ \<Rightarrow>
            (case lookupAppAndAdmin w appId of
               Inl f \<Rightarrow> (w, Inl f)
             | Inr (app, admin) \<Rightarrow>
                 (case js_toLowerCase e username of
                    Inl ex \<Rightarrow> (w, Inl (Raise ex))
                  | Inr lowered \<Rightarrow>
                      (case getUser w appId lowered of
                         Inl ex \<Rightarrow> (w, Inl (Raise ex))
                       | Inr userOpt \<Rightarrow>
                           (case validatePassword e passwordToken userOpt w of
                              (w1, Inl ex) \<Rightarrow> (w1, Inl (passwordFailure ex))
                            | (w1, Inr usedTempPassword) \<Rightarrow>
                                (case userOpt of
                                   None \<Rightarrow> (w1, Inl (Raise TypeError))
                                 | Some user \<Rightarrow>
                                     if truthy (attr user ''deleted'') then
                                       (w1, Inl (Respond Forbidden (JStr ''User pending deletion'')))
                                     else
                                       (case createSession e (attr user ''user-id'') appId w1 of
                                          Inl ex \<Rightarrow> (w1, Inl (Raise ex))
                                        | Inr (w2, session) \<Rightarrow>
                                            (w2, Inr (signInResult session user
                                                        usedTempPassword)))))))))"

definition signIn :: "env \<Rightarrow> jsval \<Rightarrow> jsval \<Rightarrow> jsval \<Rightarrow> world \<Rightarrow> world \<times> response" where
  "signIn e appId username passwordToken w =
     respond ''User failed to sign in'' (signIn_try e appId username passwordToken w)"

section \<open>Key-possession proof\<close>

text \<open>\<open>_buildStripeData(admin, app, user)\<close>.\<close>

definition buildStripeData :: "item \<Rightarrow> item \<Rightarrow> item \<Rightarrow> jsval" where
  "buildStripeData admin app user =
     JObj ([(''stripeAccountId'', attr admin ''stripe-account-id''),
            (''paymentsMode'',
               if truthy (attr app ''payments-mode'') then attr app ''payments-mode''
               else JStr ''disabled'')]
        @ (if attr app ''payments-mode'' = JStr ''test'' then
             [(''subscriptionStatus'', attr user ''test-subscription-status''),
              (''cancelSubscriptionAt'', attr user ''test-cancel-subscription-at'')]
           else if attr app ''payments-mode'' = JStr ''prod'' then
             [(''subscriptionStatus'', attr user ''prod-subscription-status''),
              (''cancelSubscriptionAt'', attr user ''prod-cancel-subscription-at'')]
           else []))"

text \<open>
  \<open>userSavedSeed\<close>: clears the bootstrap flag, on condition that the flag is still
  there and the record still has this user id and public key.
\<close>

definition userSavedSeed :: "jsval \<Rightarrow> jsval \<Rightarrow> jsval \<Rightarrow> jsval \<Rightarrow> world \<Rightarrow> exn + world" where
  "userSavedSeed userId appId username publicKey w =
     (case ddb_update (ddb_up w) (users w) (username, appId) (user_key_attrs username appId)
             (\<lambda>stored. attribute_exists ''seed-not-saved-yet'' stored
                        \<and> attribute_eq ''user-id'' userId stored
                        \<and> attribute_eq ''public-key'' publicKey stored)
             (\<lambda>it. it(''seed-not-saved-yet'' := None)) of
        Inl ex \<Rightarrow> Inl ex
      | Inr tbl \<Rightarrow> Inr (w\<lparr>users := tbl\<rparr>))"

text \<open>
  \<open>validateKey\<close>. \<open>validationMessage\<close> is the challenge (its bytes),
  \<open>userProvidedValidationMessage\<close> what the client sent back. \<open>conn.validateKey()\<close>
  marks the WebSocket connection and touches no record.
\<close>

definition validateKey ::
  "env \<Rightarrow> string \<Rightarrow> jsval \<Rightarrow> item \<Rightarrow> item \<Rightarrow> item \<Rightarrow> world \<Rightarrow> world \<times> response" where
  "validateKey e validationMessage userProvidedValidationMessage admin app user w =
     (let seedNotSavedYet = attr user ''seed-not-saved-yet'';
          userId = attr user ''user-id'';
          appId = attr user ''app-id'';
          username = attr user ''username'';
          userPublicKey = attr user ''public-key''
      in if JStr (base64 e validationMessage) = userProvidedValidationMessage then
           (if truthy seedNotSavedYet then
              (case userSavedSeed userId appId username userPublicKey w of
                 Inl ConditionalCheckFailedException \<Rightarrow> (w, (Unauthorized, JStr ''Invalid seed''))
               | Inl ex \<Rightarrow> (w, (InternalServerError, JStr ''Failed to validate key''))
               | Inr w1 \<Rightarrow>
                   (w1, (Success, JObj [(''stripeData'', buildStripeData admin app user)])))
            else (w, (Success, JObj [(''stripeData'', buildStripeData admin app user)])))
         else (w, (Unauthorized, JStr ''Failed to validate key'')))"

section \<open>Billing events\<close>

text \<open>
  The parameters of an update of one user record: its key, its condition expression and
  its update expression.
\<close>

record update_params =
  Key :: "jsval \<times> jsval"
  ConditionExpression :: "item option \<Rightarrow> bool"
  UpdateExpression :: "item \<Rightarrow> item"

definition conditionCheckUserExists :: "jsval \<Rightarrow> jsval \<Rightarrow> jsval \<Rightarrow> update_params" where
  "conditionCheckUserExists username appId userId =
     \<lparr>Key = (username, appId),
      ConditionExpression =
        (\<lambda>stored. attribute_exists ''username'' stored \<and> attribute_eq ''user-id'' userId stored),
      UpdateExpression = (\<lambda>it. it)\<rparr>"

definition ddb_update_user :: "world \<Rightarrow> update_params \<Rightarrow> exn + world" where
  "ddb_update_user w params =
     (case ddb_update (ddb_up w) (users w) (Key params)
             (user_key_attrs (fst (Key params)) (snd (Key params)))
             (ConditionExpression params) (UpdateExpression params) of
        Inl ex \<Rightarrow> Inl ex
      | Inr tbl \<Rightarrow> Inr (w\<lparr>users := tbl\<rparr>))"

text \<open>
  \<open>_buildStripeSubscriptionDdbParams\<close>: on top of the existence check, the event's
  timestamp must be greater than the stored one of the same environment, if there is one.
\<close>

definition buildStripeSubscriptionDdbParams ::
  "item \<Rightarrow> jsval \<Rightarrow> jsval \<Rightarrow> jsval \<Rightarrow> jsval \<Rightarrow> jsval \<Rightarrow> jsval \<Rightarrow> bool \<Rightarrow> update_params" where
  "buildStripeSubscriptionDdbParams user customerId subscriptionId planId status cancelAt
       stripeEventTimestamp isProduction =
     (let params = conditionCheckUserExists (attr user ''username'') (attr user ''app-id'')
                     (attr user ''user-id'');
          env_prefix = (if isProduction then ''prod'' else ''test'')
      in params\<lparr>
           ConditionExpression :=
             (\<lambda>stored. ConditionExpression params stored
                \<and> (attribute_not_exists (env_prefix @ ''-stripe-event-timestamp'') stored
                    \<or> attribute_lt (env_prefix @ ''-stripe-event-timestamp'')
                         stripeEventTimestamp stored)),
           UpdateExpression :=
             (\<lambda>it. let it1 = it(env_prefix @ ''-stripe-customer-id'' \<mapsto> customerId,
                                env_prefix @ ''-subscription-id'' \<mapsto> subscriptionId,
                                env_prefix @ ''-subscription-plan-id'' \<mapsto> planId,
                                env_prefix @ ''-subscription-status'' \<mapsto> status,
                                env_prefix @ ''-stripe-event-timestamp'' \<mapsto> stripeEventTimestamp)
                    in if \<not> truthy cancelAt
                       then it1(env_prefix @ ''-cancel-subscription-at'' := None)
                       else it1(env_prefix @ ''-cancel-subscription-at'' \<mapsto> cancelAt))\<rparr>)"

text \<open>
  \<open>updateSubscriptionInDdb\<close>: the \<open>try\<close> block, then the \<open>catch\<close>, which swallows
  an \<open>Error\<close> whose message is one of the eight it lists and throws anything else
  again. The exceptions of the store carry messages of the store's own
  (\<open>The conditional request failed\<close>), none of them in the list.
\<close>

definition updateSubscriptionInDdb_try ::
  "item \<Rightarrow> jsval \<Rightarrow> jsval \<Rightarrow> jsval \<Rightarrow> jsval \<Rightarrow> jsval \<Rightarrow> jsval \<Rightarrow> bool \<Rightarrow> jsval \<Rightarrow> world
     \<Rightarrow> exn + world" where
  "updateSubscriptionInDdb_try metadata customerId subscriptionId subscriptionPlanId status
       cancelAt stripeEventTimestamp isProduction stripeAccountId w =
     (let userId = attr metadata ''__userbase_user_id'';
          adminId = attr metadata ''__userbase_admin_id'';
          appId = attr metadata ''__userbase_app_id''
      in if \<not> truthy userId then Inl (Error ''MissingUserIdFromUserSubscriptionMetadata'')
         else if \<not> truthy appId then Inl (Error ''MissingAppIdFromUserSubscriptionMetadata'')
         else if \<not> truthy adminId then Inl (Error ''MissingAdminIdFromUserSubscriptionMetadata'')
         else
           case findAdminByAdminId w adminId of
             Inl ex \<Rightarrow> Inl ex
           | Inr adminOpt \<Rightarrow>
               (case getAppByAppId w appId of
                  Inl ex \<Rightarrow> Inl ex
                | Inr appOpt \<Rightarrow>
                    (case getUserByUserId w userId of
                       Inl ex \<Rightarrow> Inl ex
                     | Inr userOpt \<Rightarrow>
                         (case (adminOpt, appOpt, userOpt) of
                            (Some admin, Some app, Some user) \<Rightarrow>
                              if attr app ''admin-id'' \<noteq> adminId then
                                Inl (Error ''IncorrectAppIdInMetadata'')
                              else if attr user ''app-id'' \<noteq> appId then
                                Inl (Error ''IncorrectUserIdInMetadata'')
                              else if attr admin ''stripe-account-id'' \<noteq> stripeAccountId then
                                Inl (Error ''IncorrectStripeAccount'')
                              else if (isProduction
                                         \<and> attr app ''prod-subscription-plan-id''
                                             \<noteq> subscriptionPlanId)
                                      \<or> (\<not> isProduction
                                         \<and> attr app ''test-subscription-plan-id''
                                             \<noteq> subscriptionPlanId)
                              then Inl (Error ''IncorrectSubscriptionPlanId'')
                              else
                                ddb_update_user w
                                  (buildStripeSubscriptionDdbParams user customerId
                                     subscriptionId subscriptionPlanId status cancelAt
                                     stripeEventTimestamp isProduction)
                          | _ \<Rightarrow> Inl (Error ''MissingFromDdb'')))))"

fun noNeedToThrow :: "exn \<Rightarrow> bool" where
  "noNeedToThrow (Error message) =
     (message \<in> set [''MissingUserIdFromUserSubscriptionMetadata'',
                     ''MissingAppIdFromUserSubscriptionMetadata'',
                     ''MissingAdminIdFromUserSubscriptionMetadata'',
                     ''MissingFromDdb'',
                     ''IncorrectAppIdInMetadata'',
                     ''IncorrectUserIdInMetadata'',
                     ''IncorrectStripeAccount'',
                     ''IncorrectSubscriptionPlanId''])"
| "noNeedToThrow _ = False"

definition updateSubscriptionInDdb ::
  "item \<Rightarrow> jsval \<Rightarrow> jsval \<Rightarrow> jsval \<Rightarrow> jsval \<Rightarrow> jsval \<Rightarrow> jsval \<Rightarrow> bool \<Rightarrow> jsval \<Rightarrow> world
     \<Rightarrow> world \<times> (exn + unit)" where
  "updateSubscriptionInDdb metadata customerId subscriptionId subscriptionPlanId status
       cancelAt stripeEventTimestamp isProduction stripeAccountId w =
     (case updateSubscriptionInDdb_try metadata customerId subscriptionId subscriptionPlanId
             status cancelAt stripeEventTimestamp isProduction stripeAccountId w of
        Inr w1 \<Rightarrow> (w1, Inr ())
      | Inl ex \<Rightarrow> if noNeedToThrow ex then (w, Inr ()) else (w, Inl ex))"

section \<open>Entitlement check\<close>

text \<open>\<open>_throwPaymentErrors\<close>: the first flag that is set decides the error.\<close>

definition throwPaymentErrors ::
  "bool \<Rightarrow> bool \<Rightarrow> bool \<Rightarrow> bool \<Rightarrow> jsval \<Rightarrow> response + unit" where
  "throwPaymentErrors subscriptionPlanNotSet subscriptionNotFound subscribedToIncorrectPlan
       subscriptionInactive subscriptionStatus =
     (if subscriptionPlanNotSet then
        Inl (Forbidden, JObj [(''name'', JStr ''SubscriptionPlanNotSet'')])
      else if subscriptionNotFound then
        Inl (NotFound, JObj [(''name'', JStr ''SubscriptionNotFound'')])
      else if subscribedToIncorrectPlan then
        Inl (PaymentRequired, JObj [(''name'', JStr ''SubscribedToIncorrectPlan'')])
      else if subscriptionInactive then
        Inl (PaymentRequired, JObj [(''name'', JStr ''SubscriptionInactive''),
                                    (''subscriptionStatus'', subscriptionStatus)])
      else Inr ())"

text \<open>
  \<open>validatePayment(user, app, admin)\<close>. It returns nothing when the action is
  permitted and throws a \<open>{ status, error }\<close> object otherwise.
\<close>

definition validatePayment :: "env \<Rightarrow> item \<Rightarrow> item \<Rightarrow> item \<Rightarrow> response + unit" where
  "validatePayment e user app admin =
     (if attr app ''payments-mode'' \<noteq> JStr ''prod'' \<and> attr app ''payments-mode'' \<noteq> JStr ''test''
      then Inr ()
      else if attr app ''payments-mode'' = JStr ''prod'' \<and> \<not> prodPaymentsEnabled e admin
      then Inr ()
      else
        let prefix = (if attr app ''payments-mode'' = JStr ''prod'' then ''prod'' else ''test'');
            subscriptionPlanNotSet = \<not> truthy (attr app (prefix @ ''-subscription-plan-id''));
            subscriptionNotFound = \<not> truthy (attr user (prefix @ ''-subscription-plan-id''));
            subscribedToIncorrectPlan =
              (attr app (prefix @ ''-subscription-plan-id'')
                 \<noteq> attr user (prefix @ ''-subscription-plan-id''));
            subscriptionStatus = attr user (prefix @ ''-subscription-status'');
            subscriptionInactive =
              (subscriptionStatus \<noteq> JStr ''active'' \<and> subscriptionStatus \<noteq> JStr ''trialing'')
        in throwPaymentErrors subscriptionPlanNotSet subscriptionNotFound
             subscribedToIncorrectPlan subscriptionInactive subscriptionStatus)"

section \<open>Example records\<close>

text \<open>
  A concrete clock and concrete collaborators, and a few records, on which the theorems
  below are instantiated. The example clock reads 2020-01-02T00:00:00.000Z and knows
  three dates.
\<close>

definition ex_env :: env where
  "ex_env = \<lparr>now = 1577923200000,
             toISOString = (\<lambda>t. if t = 1577836800000 then ''2020-01-01T00:00:00.000Z''
                                 else if t = 1577923200000 then ''2020-01-02T00:00:00.000Z''
                                 else ''2020-01-03T00:00:00.000Z''),
             parseDate = (\<lambda>s. if s = ''2020-01-01T00:00:00.000Z'' then Some 1577836800000
                               else if s = ''2020-01-02T00:00:00.000Z'' then Some 1577923200000
                               else if s = ''2020-01-03T00:00:00.000Z'' then Some 1578009600000
                               else None),
             sha256 = (\<lambda>v. case v of JStr s \<Rightarrow> ''#'' @ s | _ \<Rightarrow> ''#''),
             base64 = (\<lambda>s. s),
             toLowerCase = (\<lambda>s. s),
             validateEmail = (\<lambda>v. True),
             uuidv4 = ''11111111-2222-4333-8444-555555555555'',
             randomSessionId = ''0123456789abcdef0123456789abcdef'',
             randomAuthToken = ''fedcba9876543210fedcba9876543210'',
             getTtl = (\<lambda>secs. JNum (1577923200 + secs)),
             countNonDeletedAppUsers = (\<lambda>appId limit. 0),
             prodPaymentsEnabled = (\<lambda>admin. True)\<rparr>"

definition ex_app :: item where
  "ex_app = [''app-id'' \<mapsto> JStr ''app1'', ''admin-id'' \<mapsto> JStr ''admin1'',
             ''payments-mode'' \<mapsto> JStr ''test'',
             ''test-subscription-plan-id'' \<mapsto> JStr ''plan_A'']"

definition ex_admin :: item where
  "ex_admin = [''admin-id'' \<mapsto> JStr ''admin1'', ''stripe-account-id'' \<mapsto> JStr ''acct_1'',
               ''stripe-saas-subscription-status'' \<mapsto> JStr ''active'']"

definition ex_user_past_due :: item where
  "ex_user_past_due = [''username'' \<mapsto> JStr ''alice'', ''app-id'' \<mapsto> JStr ''app1'',
                       ''user-id'' \<mapsto> JStr ''u1'',
                       ''test-subscription-plan-id'' \<mapsto> JStr ''plan_A'',
                       ''test-subscription-status'' \<mapsto> JStr ''past_due'']"

definition ex_world :: world where
  "ex_world = \<lparr>users = [], sessions = [],
               apps = [JStr ''app1'' \<mapsto> ex_app], admins = [JStr ''admin1'' \<mapsto> ex_admin],
               ddb_up = True\<rparr>"

definition ex_user_temp :: item where
  "ex_user_temp = [''username'' \<mapsto> JStr ''alice'', ''app-id'' \<mapsto> JStr ''app1'',
                   ''user-id'' \<mapsto> JStr ''u1'',
                   ''password-token'' \<mapsto> JBuf ''#secret'',
                   ''temp-password-token'' \<mapsto> JBuf ''#temp'',
                   ''temp-password-creation-date'' \<mapsto> JStr ''2020-01-01T00:00:00.000Z'',
                   ''password-based-encryption-key-salt'' \<mapsto> JStr ''salt'',
                   ''password-encrypted-seed'' \<mapsto> JStr ''seed'']"

definition ex_world_temp :: world where
  "ex_world_temp = ex_world\<lparr>users := [((JStr ''alice'', JStr ''app1''), ex_user_temp)]\<rparr>"

definition ex_user_unenrolled :: item where
  "ex_user_unenrolled = [''username'' \<mapsto> JStr ''bob'', ''app-id'' \<mapsto> JStr ''app1'',
                         ''user-id'' \<mapsto> JStr ''u2'', ''public-key'' \<mapsto> JStr ''pk2'',
                         ''password-token'' \<mapsto> JBuf ''#hunter2'',
                         ''seed-not-saved-yet'' \<mapsto> JBool True]"

definition ex_world_unenrolled :: world where
  "ex_world_unenrolled =
     ex_world\<lparr>users := [((JStr ''bob'', JStr ''app1''), ex_user_unenrolled)]\<rparr>"

definition ex_world_enrolled :: world where
  "ex_world_enrolled =
     ex_world\<lparr>users := [((JStr ''bob'', JStr ''app1''),
                           ex_user_unenrolled(''seed-not-saved-yet'' := None))]\<rparr>"

definition ex_user_sub :: item where
  "ex_user_sub = [''username'' \<mapsto> JStr ''carol'', ''app-id'' \<mapsto> JStr ''app1'',
                  ''user-id'' \<mapsto> JStr ''u3'',
                  ''test-stripe-customer-id'' \<mapsto> JStr ''cus_1'',
                  ''test-subscription-id'' \<mapsto> JStr ''sub_1'',
                  ''test-subscription-plan-id'' \<mapsto> JStr ''plan_A'',
                  ''test-subscription-status'' \<mapsto> JStr ''active'',
                  ''test-stripe-event-timestamp'' \<mapsto> JNum 200]"

definition ex_world_sub :: world where
  "ex_world_sub = ex_world\<lparr>users := [((JStr ''carol'', JStr ''app1''), ex_user_sub)]\<rparr>"

definition ex_metadata :: item where
  "ex_metadata = [''__userbase_user_id'' \<mapsto> JStr ''u3'',
                  ''__userbase_admin_id'' \<mapsto> JStr ''admin1'',
                  ''__userbase_app_id'' \<mapsto> JStr ''app1'']"

definition ex_user_locked :: item where
  "ex_user_locked = [''username'' \<mapsto> JStr ''dave'', ''app-id'' \<mapsto> JStr ''app1'',
                     ''user-id'' \<mapsto> JStr ''u4'',
                     ''password-token'' \<mapsto> JBuf ''#secret'',
                     ''incorrect-password-attempts-in-a-row'' \<mapsto> JNum 25]"

definition ex_user_suspended :: item where
  "ex_user_suspended = ex_user_locked(''suspended-at'' \<mapsto> JStr ''2020-01-01T00:00:00.000Z'')"

definition ex_world_locked :: world where
  "ex_world_locked = ex_world\<lparr>users := [((JStr ''dave'', JStr ''app1''), ex_user_locked)]\<rparr>"

definition ex_world_suspended :: world where
  "ex_world_suspended =
     ex_world\<lparr>users := [((JStr ''dave'', JStr ''app1''), ex_user_suspended)]\<rparr>"

definition ex_signup_req :: signup_req where
  "ex_signup_req =
     \<lparr>req_appId = JStr ''app1'',
      req_username = JStr ''bob'',
      req_passwordToken = JStr ''correct horse'',
      req_publicKey = JStr ''pk-new'',
      req_passwordSalts = JObj [(''passwordSalt'', JStr ''ps''), (''passwordTokenSalt'', JStr ''pts'')],
      req_keySalts = JObj [(''encryptionKeySalt'', JStr ''eks''), (''dhKeySalt'', JStr ''dks''),
                           (''hmacKeySalt'', JStr ''hks'')],
      req_email = JUndefined,
      req_profile = JUndefined,
      req_passwordBasedBackup = JObj [(''passwordBasedEncryptionKeySalt'', JStr ''pbs''),
                                      (''passwordEncryptedSeed'', JStr ''seed'')]\<rparr>"

definition ex_env_later :: env where
  "ex_env_later = ex_env\<lparr>now := 1578009600000,
                           randomSessionId := ''aaaaaaaaaaaaaaaaaaaaaaaaaaaaaaaa'',
                           randomAuthToken := ''bbbbbbbbbbbbbbbbbbbbbbbbbbbbbbbb''\<rparr>"

section \<open>Entitlement: what \<open>validatePayment\<close> permits\<close>

lemma validatePayment_active:
  assumes "attr app ''payments-mode'' = JStr ''prod'' \<or> attr app ''payments-mode'' = JStr ''test''"
    and "attr app ''payments-mode'' = JStr ''prod'' \<longrightarrow> prodPaymentsEnabled e admin"
    and "prefix = (if attr app ''payments-mode'' = JStr ''prod'' then ''prod'' else ''test'')"
  shows "validatePayment e user app admin =
     throwPaymentErrors (\<not> truthy (attr app (prefix @ ''-subscription-plan-id'')))
       (\<not> truthy (attr user (prefix @ ''-subscription-plan-id'')))
       (attr app (prefix @ ''-subscription-plan-id'') \<noteq> attr user (prefix @ ''-subscription-plan-id''))
       (attr user (prefix @ ''-subscription-status'') \<noteq> JStr ''active''
          \<and> attr user (prefix @ ''-subscription-status'') \<noteq> JStr ''trialing'')
       (attr user (prefix @ ''-subscription-status''))"
proof (cases "attr app ''payments-mode'' = JStr ''prod''")
  case True
  with assms show ?thesis unfolding validatePayment_def Let_def by simp
next
  case False
  with assms show ?thesis unfolding validatePayment_def Let_def by simp
qed

lemma validatePayment_disabled:
  assumes "(attr app ''payments-mode'' \<noteq> JStr ''prod'' \<and> attr app ''payments-mode'' \<noteq> JStr ''test'')
         \<or> (attr app ''payments-mode'' = JStr ''prod'' \<and> \<not> prodPaymentsEnabled e admin)"
  shows "validatePayment e user app admin = Inr ()"
  using assms unfolding validatePayment_def by auto

text \<open>
  Claim C6. For every user, app and admin, \<open>validatePayment\<close> returns without error
  exactly when payments are disabled for the app (the payments mode is neither \<open>prod\<close>
  nor \<open>test\<close>, or it is \<open>prod\<close> while the admin has not enabled production
  payments, which the source treats as disabled), or the app has a plan configured for
  the active environment, the user's stored plan id equals it and the user's status is
  \<open>active\<close> or \<open>trialing\<close>. Otherwise it fails with \<open>SubscriptionPlanNotSet\<close> when the
  app has no plan; else \<open>SubscriptionNotFound\<close> when the user has none; else
  \<open>SubscribedToIncorrectPlan\<close> when the two plan ids differ, whatever the status; else
  \<open>SubscriptionInactive\<close>, carrying the status, when the status is neither \<open>active\<close>
  nor \<open>trialing\<close>.
\<close>

theorem validatePayment_entitlement:
  assumes mode: "mode = attr app ''payments-mode''"
    and prefix: "prefix = (if mode = JStr ''prod'' then ''prod'' else ''test'')"
    and appPlan: "appPlan = attr app (prefix @ ''-subscription-plan-id'')"
    and userPlan: "userPlan = attr user (prefix @ ''-subscription-plan-id'')"
    and status: "st = attr user (prefix @ ''-subscription-status'')"
    and disabled: "disabled = ((mode \<noteq> JStr ''prod'' \<and> mode \<noteq> JStr ''test'')
                      \<or> (mode = JStr ''prod'' \<and> \<not> prodPaymentsEnabled e admin))"
    and res: "res = validatePayment e user app admin"
  shows "(res = Inr () \<longleftrightarrow>
            disabled \<or> (truthy appPlan \<and> userPlan = appPlan
                          \<and> (st = JStr ''active'' \<or> st = JStr ''trialing'')))
       \<and> (\<not> disabled \<and> \<not> truthy appPlan \<longrightarrow>
            res = Inl (Forbidden, JObj [(''name'', JStr ''SubscriptionPlanNotSet'')]))
       \<and> (\<not> disabled \<and> truthy appPlan \<and> \<not> truthy userPlan \<longrightarrow>
            res = Inl (NotFound, JObj [(''name'', JStr ''SubscriptionNotFound'')]))
       \<and> (\<not> disabled \<and> truthy appPlan \<and> truthy userPlan \<and> userPlan \<noteq> appPlan \<longrightarrow>
            res = Inl (PaymentRequired, JObj [(''name'', JStr ''SubscribedToIncorrectPlan'')]))
       \<and> (\<not> disabled \<and> truthy appPlan \<and> userPlan = appPlan
              \<and> st \<noteq> JStr ''active'' \<and> st \<noteq> JStr ''trialing'' \<longrightarrow>
            res = Inl (PaymentRequired, JObj [(''name'', JStr ''SubscriptionInactive''),
                                              (''subscriptionStatus'', st)]))"
proof (cases disabled)
  case True
  then have "res = Inr ()"
    using validatePayment_disabled[of app e admin user] disabled mode res by simp
  with True show ?thesis by simp
next
  case False
  then have m: "attr app ''payments-mode'' = JStr ''prod'' \<or> attr app ''payments-mode'' = JStr ''test''"
    and p: "attr app ''payments-mode'' = JStr ''prod'' \<longrightarrow> prodPaymentsEnabled e admin"
    using disabled mode by auto
  have pf: "prefix = (if attr app ''payments-mode'' = JStr ''prod'' then ''prod'' else ''test'')"
    using prefix mode by simp
  have "res = throwPaymentErrors (\<not> truthy appPlan) (\<not> truthy userPlan) (appPlan \<noteq> userPlan)
                (st \<noteq> JStr ''active'' \<and> st \<noteq> JStr ''trialing'') st"
    unfolding res appPlan userPlan status
    using validatePayment_active[of app e admin prefix user, OF m p pf] by simp
  with False show ?thesis
    unfolding throwPaymentErrors_def by auto
qed


theorem validatePayment_entitlement_witness:
  "validatePayment ex_env ex_user_past_due ex_app ex_admin =
     Inl (PaymentRequired, JObj [(''name'', JStr ''SubscriptionInactive''),
                                 (''subscriptionStatus'', JStr ''past_due'')])"
proof -
  note t = validatePayment_entitlement[where app = ex_app and user = ex_user_past_due
             and e = ex_env and admin = ex_admin, OF refl refl refl refl refl refl refl]
  have m: "attr ex_app ''payments-mode'' = JStr ''test''"
    by (simp add: ex_app_def attr_def)
  have a: "attr ex_app ''test-subscription-plan-id'' = JStr ''plan_A''"
    by (simp add: ex_app_def attr_def)
  have u: "attr ex_user_past_due ''test-subscription-plan-id'' = JStr ''plan_A''"
    by (simp add: ex_user_past_due_def attr_def)
  have s: "attr ex_user_past_due ''test-subscription-status'' = JStr ''past_due''"
    by (simp add: ex_user_past_due_def attr_def)
  show ?thesis using t by (simp add: m a u s)
qed

section \<open>Sign-out\<close>

text \<open>
  Claim C10. For every non-empty session id string, \<open>signOut\<close> answers with success
  whenever the store accepts the write, whether or not a session with that id is stored:
  the update has no condition, so it marks an existing session invalidated and creates an
  invalidated record for an unknown id.
\<close>

theorem signOut_unknown_session_ok:
  assumes "sessionId = JStr s" and "s \<noteq> []" and "ddb_up w"
  shows "snd (signOut sessionId w) = (Success, JStr ''Success!'')
       \<and> map_of (sessions (fst (signOut sessionId w))) sessionId =
           Some ((case map_of (sessions w) sessionId of
                    None \<Rightarrow> [''session-id'' \<mapsto> sessionId] | Some it \<Rightarrow> it)
                 (''invalidated'' \<mapsto> JBool True))"
  using assms(2,3) unfolding assms(1) by (simp add: signOut_def ddb_update_def update_conv')

theorem signOut_unknown_session_ok_witness:
  "map_of (sessions ex_world) (JStr ''no-such-session'') = None
   \<and> snd (signOut (JStr ''no-such-session'') ex_world) = (Success, JStr ''Success!'')"
  using signOut_unknown_session_ok[of "JStr ''no-such-session''" "''no-such-session''" ex_world]
  by (simp add: ex_world_def)

section \<open>Sign-in: the password-based backup in the response\<close>

lemma signInResult_backup:
  "js_field (signInResult session user usedTempPassword) ''passwordBasedBackup'' =
     (if \<not> truthy usedTempPassword
         \<and> truthy (attr user ''password-based-encryption-key-salt'')
         \<and> truthy (attr user ''password-encrypted-seed'')
      then JObj [(''passwordBasedEncryptionKeySalt'',
                    attr user ''password-based-encryption-key-salt''),
                 (''passwordEncryptedSeed'', attr user ''password-encrypted-seed'')]
      else JUndefined)"
  by (simp add: signInResult_def)

lemma signInResult_usedTemp:
  "js_field (signInResult session user usedTempPassword) ''usedTempPassword'' =
     (if truthy usedTempPassword then JBool True else JUndefined)"
  by (simp add: signInResult_def)

lemma signIn_try_success:
  assumes "signIn_try e appId username passwordToken w = (w', Inr result)"
  shows "\<exists>lowered user w1 usedTempPassword session.
           js_toLowerCase e username = Inr lowered
         \<and> getUser w appId lowered = Inr (Some user)
         \<and> validatePassword e passwordToken (Some user) w = (w1, Inr usedTempPassword)
         \<and> createSession e (attr user ''user-id'') appId w1 = Inr (w', session)
         \<and> result = signInResult session user usedTempPassword"
  using assms unfolding signIn_try_def
  by (auto split: if_splits sum.splits option.splits prod.splits)


lemma lookupAppAndAdmin_failure:
  "lookupAppAndAdmin w appId = Inl (Respond st msg) \<Longrightarrow> st = Unauthorized"
  unfolding lookupAppAndAdmin_def
  by (auto split: sum.splits option.splits if_splits)

lemma signIn_try_failure_status:
  assumes "signIn_try e appId username passwordToken w = (w', Inl (Respond st msg))"
  shows "st \<noteq> Success"
  using assms unfolding signIn_try_def passwordFailure_def
  by (auto split: if_splits sum.splits option.splits prod.splits dest: lookupAppAndAdmin_failure)

lemma signIn_Success:
  assumes "signIn e appId username passwordToken w = (w', (Success, result))"
  shows "signIn_try e appId username passwordToken w = (w', Inr result)"
proof (cases "signIn_try e appId username passwordToken w")
  case (Pair w0 r)
  show ?thesis
  proof (cases r)
    case (Inr res)
    with Pair assms show ?thesis by (simp add: signIn_def respond_def)
  next
    case (Inl f)
    show ?thesis
    proof (cases f)
      case (Respond st msg)
      with Pair Inl have "st \<noteq> Success" using signIn_try_failure_status by blast
      with Pair Inl Respond assms show ?thesis by (simp add: signIn_def respond_def)
    next
      case (Raise ex)
      with Pair Inl assms show ?thesis by (simp add: signIn_def respond_def)
    qed
  qed
qed

text \<open>
  Claim C9. Every successful sign-in has read a user record and passed the password check
  on it. The response carries \<open>passwordBasedBackup\<close> exactly when the check did not
  report the temporary password and the record's
  \<open>password-based-encryption-key-salt\<close> and \<open>password-encrypted-seed\<close> are both
  truthy; in particular it is omitted whenever the temporary password was used. On a
  record whose two attributes are truthy whenever present (every write of them in the
  controller is guarded by a truthiness check), truthy is the same as present.
\<close>

theorem signIn_passwordBasedBackup:
  assumes "signIn e appId username passwordToken w = (w', (Success, result))"
  shows "\<exists>lowered user w1 usedTempPassword.
           js_toLowerCase e username = Inr lowered
         \<and> getUser w appId lowered = Inr (Some user)
         \<and> validatePassword e passwordToken (Some user) w = (w1, Inr usedTempPassword)
         \<and> js_field result ''usedTempPassword'' =
              (if truthy usedTempPassword then JBool True else JUndefined)
         \<and> (truthy usedTempPassword \<longrightarrow> js_field result ''passwordBasedBackup'' = JUndefined)
         \<and> (js_field result ''passwordBasedBackup'' \<noteq> JUndefined \<longleftrightarrow>
               \<not> truthy usedTempPassword
               \<and> truthy (attr user ''password-based-encryption-key-salt'')
               \<and> truthy (attr user ''password-encrypted-seed''))
         \<and> ((\<forall>a \<in> {''password-based-encryption-key-salt'', ''password-encrypted-seed''}.
                 user a \<noteq> None \<longrightarrow> truthy (attr user a)) \<longrightarrow>
              (js_field result ''passwordBasedBackup'' \<noteq> JUndefined \<longleftrightarrow>
                 \<not> truthy usedTempPassword
                 \<and> user ''password-based-encryption-key-salt'' \<noteq> None
                 \<and> user ''password-encrypted-seed'' \<noteq> None))"
proof -
  from signIn_try_success[OF signIn_Success[OF assms]]
  obtain lowered user w1 usedTempPassword session where
    l: "js_toLowerCase e username = Inr lowered"
    and g: "getUser w appId lowered = Inr (Some user)"
    and v: "validatePassword e passwordToken (Some user) w = (w1, Inr usedTempPassword)"
    and r: "result = signInResult session user usedTempPassword"
    by blast
  have absent: "\<And>a. user a = None \<Longrightarrow> \<not> truthy (attr user a)"
    by (simp add: attr_def)
  have b: "js_field result ''passwordBasedBackup'' \<noteq> JUndefined \<longleftrightarrow>
               \<not> truthy usedTempPassword
               \<and> truthy (attr user ''password-based-encryption-key-salt'')
               \<and> truthy (attr user ''password-encrypted-seed'')"
    unfolding r signInResult_backup by simp
  have u: "js_field result ''usedTempPassword'' =
              (if truthy usedTempPassword then JBool True else JUndefined)"
    unfolding r by (rule signInResult_usedTemp)
  show ?thesis
    apply (rule exI[of _ lowered], rule exI[of _ user], rule exI[of _ w1],
           rule exI[of _ usedTempPassword])
    using l g v b u absent by auto
qed


lemma ex_validatePassword_temp:
  "validatePassword ex_env (JStr ''temp'') (Some ex_user_temp) ex_world_temp
     = (ex_world_temp, Inr (JBool True))"
  by (simp add: validatePassword_def checkPasswordToken_def ex_user_temp_def ex_env_def attr_def
        MAX_INCORRECT_PASSWORD_GUESSES_def elapsed_gt_def MS_IN_A_DAY_def SECONDS_IN_A_DAY_def
        HOURS_IN_A_DAY_def)

theorem signIn_passwordBasedBackup_witness:
  "fst (snd (signIn ex_env (JStr ''app1'') (JStr ''alice'') (JStr ''temp'') ex_world_temp)) = Success
   \<and> js_field (snd (snd (signIn ex_env (JStr ''app1'') (JStr ''alice'') (JStr ''temp'') ex_world_temp)))
        ''passwordBasedBackup'' = JUndefined
   \<and> ex_user_temp ''password-based-encryption-key-salt'' \<noteq> None
   \<and> ex_user_temp ''password-encrypted-seed'' \<noteq> None"
proof -
  let ?r = "signIn ex_env (JStr ''app1'') (JStr ''alice'') (JStr ''temp'') ex_world_temp"
  have la: "lookupAppAndAdmin ex_world_temp (JStr ''app1'') = Inr (ex_app, ex_admin)"
    by (simp add: lookupAppAndAdmin_def getAppByAppId_def findAdminByAdminId_def
          ex_world_temp_def ex_world_def ex_app_def ex_admin_def attr_def)
  have gu: "getUser ex_world_temp (JStr ''app1'') (JStr ''alice'') = Inr (Some ex_user_temp)"
    by (simp add: getUser_def ddb_get_def ex_world_temp_def ex_world_def)
  have lc: "js_toLowerCase ex_env (JStr ''alice'') = Inr (JStr ''alice'')"
    by (simp add: ex_env_def)
  have tl: "toLowerCase ex_env ''alice'' = ''alice''"
    by (simp add: ex_env_def)
  have up: "ddb_up ex_world_temp" by (simp add: ex_world_temp_def ex_world_def)
  have del: "\<not> truthy (attr ex_user_temp ''deleted'')"
    by (simp add: ex_user_temp_def attr_def)
  have st: "fst (snd ?r) = Success"
    by (simp add: signIn_def signIn_try_def respond_def validateUsernameInput_def
          MAX_USERNAME_CHAR_LENGTH_def la gu tl ex_validatePassword_temp del
          createSession_def ddb_put_def up Let_def)
  then have "?r = (fst ?r, (Success, snd (snd ?r)))"
    by (metis prod.collapse)
  from signIn_passwordBasedBackup[OF this]
  obtain lowered user w1 usedTempPassword where
    "js_toLowerCase ex_env (JStr ''alice'') = Inr lowered"
    "getUser ex_world_temp (JStr ''app1'') lowered = Inr (Some user)"
    "validatePassword ex_env (JStr ''temp'') (Some user) ex_world_temp = (w1, Inr usedTempPassword)"
    "truthy usedTempPassword \<longrightarrow> js_field (snd (snd ?r)) ''passwordBasedBackup'' = JUndefined"
    by blast
  then have "js_field (snd (snd ?r)) ''passwordBasedBackup'' = JUndefined"
    using lc gu ex_validatePassword_temp by auto
  with st show ?thesis by (simp add: ex_user_temp_def)
qed

section \<open>Key-possession proof: how \<open>validateKey\<close> fails\<close>

lemma userSavedSeed_outcome:
  "userSavedSeed userId appId username publicKey w =
     (if \<not> ddb_up w then Inl ServiceFailure
      else if \<not> (attribute_exists ''seed-not-saved-yet'' (map_of (users w) (username, appId))
                  \<and> attribute_eq ''user-id'' userId (map_of (users w) (username, appId))
                  \<and> attribute_eq ''public-key'' publicKey (map_of (users w) (username, appId)))
      then Inl ConditionalCheckFailedException
      else Inr (w\<lparr>users := AList.update (username, appId)
                   ((case map_of (users w) (username, appId) of
                       None \<Rightarrow> user_key_attrs username appId | Some it \<Rightarrow> it)
                    (''seed-not-saved-yet'' := None)) (users w)\<rparr>))"
  by (simp add: userSavedSeed_def ddb_update_def)

text \<open>
  Claim C2, as the code has it. A call of \<open>validateKey\<close> whose client message differs
  from the base64 form of the challenge, and a call whose message matches but whose seed
  commit fails its condition (the bootstrap flag is no longer stored, or the stored user
  id or public key differ), both answer \<open>Unauthorized\<close> and leave the store as it was;
  the message of the first is \<open>Failed to validate key\<close>, the message of the second is
  \<open>Invalid seed\<close>.
\<close>

theorem validateKey_failures:
  fixes e validationMessage userProvidedValidationMessage admin app user w
  defines "r \<equiv> validateKey e validationMessage userProvidedValidationMessage admin app user w"
  defines "stored \<equiv> map_of (users w) (attr user ''username'', attr user ''app-id'')"
  shows "(JStr (base64 e validationMessage) \<noteq> userProvidedValidationMessage \<longrightarrow>
            r = (w, (Unauthorized, JStr ''Failed to validate key'')))
       \<and> (JStr (base64 e validationMessage) = userProvidedValidationMessage
            \<and> truthy (attr user ''seed-not-saved-yet'') \<and> ddb_up w
            \<and> \<not> (attribute_exists ''seed-not-saved-yet'' stored
                   \<and> attribute_eq ''user-id'' (attr user ''user-id'') stored
                   \<and> attribute_eq ''public-key'' (attr user ''public-key'') stored) \<longrightarrow>
            r = (w, (Unauthorized, JStr ''Invalid seed'')))"
  unfolding r_def stored_def validateKey_def Let_def userSavedSeed_outcome
  by simp


theorem validateKey_failures_witness:
  "validateKey ex_env ''challenge'' (JStr ''tampered'') ex_admin ex_app ex_user_unenrolled
     ex_world_unenrolled = (ex_world_unenrolled, (Unauthorized, JStr ''Failed to validate key''))
   \<and> validateKey ex_env ''challenge'' (JStr ''challenge'') ex_admin ex_app ex_user_unenrolled
     ex_world_enrolled = (ex_world_enrolled, (Unauthorized, JStr ''Invalid seed''))"
proof -
  have b: "base64 ex_env ''challenge'' = ''challenge''" by (simp add: ex_env_def)
  have a: "attr ex_user_unenrolled ''seed-not-saved-yet'' = JBool True"
          "attr ex_user_unenrolled ''username'' = JStr ''bob''"
          "attr ex_user_unenrolled ''app-id'' = JStr ''app1''"
    by (simp_all add: ex_user_unenrolled_def attr_def)
  have m: "map_of (users ex_world_enrolled) (JStr ''bob'', JStr ''app1'') =
             Some (ex_user_unenrolled(''seed-not-saved-yet'' := None))"
    by (simp add: ex_world_enrolled_def)
  have u: "ddb_up ex_world_enrolled" by (simp add: ex_world_enrolled_def ex_world_def)
  show ?thesis
    using validateKey_failures[where e = ex_env and validationMessage = "''challenge''"
            and userProvidedValidationMessage = "JStr ''tampered''" and admin = ex_admin
            and app = ex_app and user = ex_user_unenrolled and w = ex_world_unenrolled]
          validateKey_failures[where e = ex_env and validationMessage = "''challenge''"
            and userProvidedValidationMessage = "JStr ''challenge''" and admin = ex_admin
            and app = ex_app and user = ex_user_unenrolled and w = ex_world_enrolled]
    by (simp add: b a m u attribute_exists_def)
qed

text \<open>
  The two failures are told apart by their responses: for the same user and challenge, a
  tampered message and a commit on a record that has already saved its seed.
\<close>

theorem validateKey_uniform_counterexample:
  "snd (validateKey ex_env ''challenge'' (JStr ''tampered'') ex_admin ex_app ex_user_unenrolled
          ex_world_unenrolled) = (Unauthorized, JStr ''Failed to validate key'')
   \<and> snd (validateKey ex_env ''challenge'' (JStr ''challenge'') ex_admin ex_app ex_user_unenrolled
          ex_world_enrolled) = (Unauthorized, JStr ''Invalid seed'')
   \<and> snd (validateKey ex_env ''challenge'' (JStr ''tampered'') ex_admin ex_app ex_user_unenrolled
          ex_world_unenrolled)
     \<noteq> snd (validateKey ex_env ''challenge'' (JStr ''challenge'') ex_admin ex_app ex_user_unenrolled
          ex_world_enrolled)"
proof -
  have b: "base64 ex_env ''challenge'' = ''challenge''" by (simp add: ex_env_def)
  have a: "attr ex_user_unenrolled ''seed-not-saved-yet'' = JBool True"
          "attr ex_user_unenrolled ''username'' = JStr ''bob''"
          "attr ex_user_unenrolled ''app-id'' = JStr ''app1''"
    by (simp_all add: ex_user_unenrolled_def attr_def)
  have m: "map_of (users ex_world_enrolled) (JStr ''bob'', JStr ''app1'') =
             Some (ex_user_unenrolled(''seed-not-saved-yet'' := None))"
    by (simp add: ex_world_enrolled_def)
  have u: "ddb_up ex_world_enrolled" by (simp add: ex_world_enrolled_def ex_world_def)
  show ?thesis
    by (simp add: validateKey_def Let_def userSavedSeed_outcome b a m u attribute_exists_def)
qed

section \<open>Billing events: the timestamp guard\<close>

lemma str_lt_irrefl: "\<not> str_lt s s"
  by (induction s) auto

lemma str_lt_asym: "str_lt a b \<Longrightarrow> \<not> str_lt b a"
  by (induction a b rule: str_lt.induct) auto

lemma ddb_lt_irrefl: "\<not> ddb_lt v v"
  by (cases v) (auto simp: str_lt_irrefl)

lemma ddb_lt_asym: "ddb_lt a b \<Longrightarrow> \<not> ddb_lt b a"
  by (cases a; cases b) (auto dest: str_lt_asym)

lemma buildStripe_Key:
  "Key (buildStripeSubscriptionDdbParams user customerId subscriptionId planId status cancelAt
          stripeEventTimestamp isProduction) = (attr user ''username'', attr user ''app-id'')"
  by (simp add: buildStripeSubscriptionDdbParams_def conditionCheckUserExists_def Let_def)

lemma buildStripe_Condition:
  "ConditionExpression (buildStripeSubscriptionDdbParams user customerId subscriptionId planId
          status cancelAt stripeEventTimestamp isProduction) stored
     = (case stored of
          None \<Rightarrow> False
        | Some it \<Rightarrow>
            it ''username'' \<noteq> None \<and> it ''user-id'' = Some (attr user ''user-id'')
            \<and> (case it ((if isProduction then ''prod'' else ''test'')
                             @ ''-stripe-event-timestamp'') of
                  None \<Rightarrow> True
                | Some t \<Rightarrow> ddb_lt t stripeEventTimestamp))"
  by (auto simp: buildStripeSubscriptionDdbParams_def conditionCheckUserExists_def Let_def
        attribute_exists_def attribute_not_exists_def attribute_eq_def
        attribute_lt_def split: option.splits)

lemma buildStripe_Update_timestamp:
  "UpdateExpression (buildStripeSubscriptionDdbParams user customerId subscriptionId planId
          status cancelAt stripeEventTimestamp isProduction) it
       ((if isProduction then ''prod'' else ''test'') @ ''-stripe-event-timestamp'')
     = Some stripeEventTimestamp"
  by (simp add: buildStripeSubscriptionDdbParams_def conditionCheckUserExists_def Let_def)

lemma ddb_update_user_outcome:
  "ddb_update_user w params =
     (if \<not> ddb_up w then Inl ServiceFailure
      else if \<not> ConditionExpression params (map_of (users w) (Key params))
      then Inl ConditionalCheckFailedException
      else Inr (w\<lparr>users := AList.update (Key params)
                  (UpdateExpression params
                     (case map_of (users w) (Key params) of
                        None \<Rightarrow> user_key_attrs (fst (Key params)) (snd (Key params))
                      | Some it \<Rightarrow> it)) (users w)\<rparr>))"
  by (simp add: ddb_update_user_def ddb_update_def)


lemma stripe_update_outcome:
  assumes "map_of (users w) (attr user ''username'', attr user ''app-id'') = Some it"
  shows "ddb_update_user w
           (buildStripeSubscriptionDdbParams user customerId subscriptionId planId status
              cancelAt stripeEventTimestamp isProduction) =
         (if \<not> ddb_up w then Inl ServiceFailure
          else if it ''username'' \<noteq> None \<and> it ''user-id'' = Some (attr user ''user-id'')
                  \<and> (case it ((if isProduction then ''prod'' else ''test'')
                                   @ ''-stripe-event-timestamp'') of
                        None \<Rightarrow> True
                      | Some t \<Rightarrow> ddb_lt t stripeEventTimestamp)
          then Inr (w\<lparr>users := AList.update (attr user ''username'', attr user ''app-id'')
                      (UpdateExpression
                         (buildStripeSubscriptionDdbParams user customerId subscriptionId planId
                            status cancelAt stripeEventTimestamp isProduction) it) (users w)\<rparr>)
          else Inl ConditionalCheckFailedException)"
  unfolding ddb_update_user_outcome buildStripe_Key buildStripe_Condition
  using assms by simp

text \<open>
  Claim C5. Take a user record that holds a \<open>stripe-event-timestamp\<close> for the
  event's payment environment. The conditional write of an event whose timestamp equals
  the stored one, or is older, is rejected, so nothing on the record is overwritten.
  Whenever the write is applied, the stored timestamp was strictly smaller than the
  event's and is the event's afterwards, so the stored timestamp strictly increases across
  applied events; and a second write of any event with that same timestamp is rejected.
\<close>

theorem stripe_event_timestamp_guard:
  fixes user customerId subscriptionId planId status cancelAt ts isProduction
  defines "params \<equiv> buildStripeSubscriptionDdbParams user customerId subscriptionId planId
                       status cancelAt ts isProduction"
  defines "tsattr \<equiv> (if isProduction then ''prod'' else ''test'') @ ''-stripe-event-timestamp''"
  assumes stored: "map_of (users w) (attr user ''username'', attr user ''app-id'') = Some it"
    and t: "it tsattr = Some t"
  shows "(t = ts \<or> ddb_lt ts t \<longrightarrow>
            (\<forall>w'. ddb_update_user w params \<noteq> Inr w')
            \<and> (ddb_up w \<longrightarrow> ddb_update_user w params = Inl ConditionalCheckFailedException))
       \<and> (\<forall>w'. ddb_update_user w params = Inr w' \<longrightarrow>
            ddb_lt t ts
            \<and> (\<exists>it'. map_of (users w') (attr user ''username'', attr user ''app-id'') = Some it'
                      \<and> it' tsattr = Some ts)
            \<and> (\<forall>customerId2 subscriptionId2 planId2 status2 cancelAt2.
                  ddb_update_user w'
                    (buildStripeSubscriptionDdbParams user customerId2 subscriptionId2 planId2
                       status2 cancelAt2 ts isProduction) = Inl ConditionalCheckFailedException))"
proof (intro conjI impI allI)
  assume "t = ts \<or> ddb_lt ts t"
  then have stale: "\<not> ddb_lt t ts" using ddb_lt_irrefl ddb_lt_asym by blast
  show "\<And>w'. ddb_update_user w params \<noteq> Inr w'"
    unfolding params_def stripe_update_outcome[OF stored]
    using t stale by (simp add: tsattr_def)
  show "ddb_up w \<Longrightarrow> ddb_update_user w params = Inl ConditionalCheckFailedException"
    unfolding params_def stripe_update_outcome[OF stored]
    using t stale by (simp add: tsattr_def)
next
  fix w'
  assume ok: "ddb_update_user w params = Inr w'"
  then have up: "ddb_up w"
    and c: "it ''username'' \<noteq> None" "it ''user-id'' = Some (attr user ''user-id'')"
    and lt: "ddb_lt t ts"
    and w': "w' = w\<lparr>users := AList.update (attr user ''username'', attr user ''app-id'')
                                (UpdateExpression params it) (users w)\<rparr>"
    unfolding params_def stripe_update_outcome[OF stored]
    using t by (auto simp: tsattr_def split: if_splits)
  show "ddb_lt t ts" by (rule lt)
  have m: "map_of (users w') (attr user ''username'', attr user ''app-id'')
             = Some (UpdateExpression params it)"
    unfolding w' by (simp add: update_conv')
  have ts': "UpdateExpression params it tsattr = Some ts"
    unfolding params_def tsattr_def by (rule buildStripe_Update_timestamp)
  show "\<exists>it'. map_of (users w') (attr user ''username'', attr user ''app-id'') = Some it'
              \<and> it' tsattr = Some ts"
    using m ts' by blast
  show "\<And>customerId2 subscriptionId2 planId2 status2 cancelAt2.
          ddb_update_user w'
            (buildStripeSubscriptionDdbParams user customerId2 subscriptionId2 planId2
               status2 cancelAt2 ts isProduction) = Inl ConditionalCheckFailedException"
    unfolding stripe_update_outcome[OF m]
    using ts' up by (simp add: w' tsattr_def ddb_lt_irrefl)
qed


lemma ex_sub_stored:
  "map_of (users ex_world_sub) (attr ex_user_sub ''username'', attr ex_user_sub ''app-id'')
     = Some ex_user_sub"
  "ex_user_sub ''test-stripe-event-timestamp'' = Some (JNum 200)"
  "ex_user_sub ''username'' \<noteq> None"
  "ex_user_sub ''user-id'' = Some (attr ex_user_sub ''user-id'')"
  "ddb_up ex_world_sub"
  by (simp_all add: ex_world_sub_def ex_world_def ex_user_sub_def attr_def)

theorem stripe_event_timestamp_guard_witness:
  "ddb_update_user ex_world_sub
     (buildStripeSubscriptionDdbParams ex_user_sub (JStr ''cus_1'') (JStr ''sub_1'')
        (JStr ''plan_A'') (JStr ''canceled'') JUndefined (JNum 200) False)
     = Inl ConditionalCheckFailedException
   \<and> (case ddb_update_user ex_world_sub
              (buildStripeSubscriptionDdbParams ex_user_sub (JStr ''cus_1'') (JStr ''sub_1'')
                 (JStr ''plan_A'') (JStr ''past_due'') JUndefined (JNum 300) False) of
         Inl ex \<Rightarrow> False
       | Inr w' \<Rightarrow>
           ddb_update_user w'
             (buildStripeSubscriptionDdbParams ex_user_sub (JStr ''cus_1'') (JStr ''sub_1'')
                (JStr ''plan_A'') (JStr ''past_due'') JUndefined (JNum 300) False)
             = Inl ConditionalCheckFailedException)"
proof -
  have same: "ddb_update_user ex_world_sub
     (buildStripeSubscriptionDdbParams ex_user_sub (JStr ''cus_1'') (JStr ''sub_1'')
        (JStr ''plan_A'') (JStr ''canceled'') JUndefined (JNum 200) False)
     = Inl ConditionalCheckFailedException"
    using stripe_event_timestamp_guard[where w = ex_world_sub and user = ex_user_sub
            and it = ex_user_sub and isProduction = False and t = "JNum 200" and ts = "JNum 200"
            and customerId = "JStr ''cus_1''" and subscriptionId = "JStr ''sub_1''"
            and planId = "JStr ''plan_A''" and status = "JStr ''canceled''"
            and cancelAt = JUndefined]
          ex_sub_stored
    by simp
  obtain w' where ok: "ddb_update_user ex_world_sub
              (buildStripeSubscriptionDdbParams ex_user_sub (JStr ''cus_1'') (JStr ''sub_1'')
                 (JStr ''plan_A'') (JStr ''past_due'') JUndefined (JNum 300) False) = Inr w'"
    unfolding stripe_update_outcome[OF ex_sub_stored(1)]
    using ex_sub_stored by simp
  have "ddb_update_user w'
             (buildStripeSubscriptionDdbParams ex_user_sub (JStr ''cus_1'') (JStr ''sub_1'')
                (JStr ''plan_A'') (JStr ''past_due'') JUndefined (JNum 300) False)
             = Inl ConditionalCheckFailedException"
    using stripe_event_timestamp_guard[where w = ex_world_sub and user = ex_user_sub
            and it = ex_user_sub and isProduction = False and t = "JNum 200" and ts = "JNum 300"
            and customerId = "JStr ''cus_1''" and subscriptionId = "JStr ''sub_1''"
            and planId = "JStr ''plan_A''" and status = "JStr ''past_due''"
            and cancelAt = JUndefined]
          ex_sub_stored ok
    by simp
  with same ok show ?thesis by simp
qed


lemma getUserByUserId_up:
  "getUserByUserId w userId = Inr r \<Longrightarrow> ddb_up w"
  unfolding getUserByUserId_def ddb_query_def by (auto split: if_splits)

lemma stale_update_fails:
  assumes "map_of (users w) (attr user ''username'', attr user ''app-id'') = Some it"
    and "it ((if isProduction then ''prod'' else ''test'') @ ''-stripe-event-timestamp'') = Some t"
    and "\<not> ddb_lt t stripeEventTimestamp"
    and "ddb_up w"
  shows "ddb_update_user w
           (buildStripeSubscriptionDdbParams user customerId subscriptionId planId status
              cancelAt stripeEventTimestamp isProduction) = Inl ConditionalCheckFailedException"
  unfolding stripe_update_outcome[OF assms(1)] using assms(2,3,4) by simp

lemma updateSubscriptionInDdb_try_found:
  assumes "getUserByUserId w (attr metadata ''__userbase_user_id'') = Inr (Some user)"
  shows "updateSubscriptionInDdb_try metadata customerId subscriptionId subscriptionPlanId
           status cancelAt ts isProduction stripeAccountId w =
         (if \<not> truthy (attr metadata ''__userbase_user_id'') then
            Inl (Error ''MissingUserIdFromUserSubscriptionMetadata'')
          else if \<not> truthy (attr metadata ''__userbase_app_id'') then
            Inl (Error ''MissingAppIdFromUserSubscriptionMetadata'')
          else if \<not> truthy (attr metadata ''__userbase_admin_id'') then
            Inl (Error ''MissingAdminIdFromUserSubscriptionMetadata'')
          else
            case admins w (attr metadata ''__userbase_admin_id'') of
              None \<Rightarrow> Inl (Error ''MissingFromDdb'')
            | Some admin \<Rightarrow>
                (case apps w (attr metadata ''__userbase_app_id'') of
                   None \<Rightarrow> Inl (Error ''MissingFromDdb'')
                 | Some app \<Rightarrow>
                     if attr app ''admin-id'' \<noteq> attr metadata ''__userbase_admin_id'' then
                       Inl (Error ''IncorrectAppIdInMetadata'')
                     else if attr user ''app-id'' \<noteq> attr metadata ''__userbase_app_id'' then
                       Inl (Error ''IncorrectUserIdInMetadata'')
                     else if attr admin ''stripe-account-id'' \<noteq> stripeAccountId then
                       Inl (Error ''IncorrectStripeAccount'')
                     else if attr app ((if isProduction then ''prod'' else ''test'')
                                         @ ''-subscription-plan-id'') \<noteq> subscriptionPlanId
                     then Inl (Error ''IncorrectSubscriptionPlanId'')
                     else ddb_update_user w
                            (buildStripeSubscriptionDdbParams user customerId subscriptionId
                               subscriptionPlanId status cancelAt ts isProduction)))"
proof -
  have up: "ddb_up w" using assms by (rule getUserByUserId_up)
  show ?thesis
    unfolding updateSubscriptionInDdb_try_def Let_def findAdminByAdminId_def getAppByAppId_def
    by (simp add: up assms split: option.splits)
qed

text \<open>
  Claim C1, as the code has it. Let the user named by the event's metadata be found, and
  let its stored record hold, for the event's environment, a timestamp that the event's
  timestamp is not strictly greater than. Then \<open>updateSubscriptionInDdb\<close> leaves the
  store unchanged. It returns normally only when one of its integrity checks on the
  metadata, the admin, the app or the plan fails; when they all pass, the conditional
  write is rejected and the store's \<open>ConditionalCheckFailedException\<close>, which is not
  among the errors the \<open>catch\<close> swallows, is thrown again to the caller.
\<close>

theorem updateSubscriptionInDdb_stale_event:
  fixes metadata customerId subscriptionId subscriptionPlanId status cancelAt ts isProduction
    stripeAccountId w
  defines "r \<equiv> updateSubscriptionInDdb metadata customerId subscriptionId subscriptionPlanId
                  status cancelAt ts isProduction stripeAccountId w"
  defines "env_prefix \<equiv> (if isProduction then ''prod'' else ''test'')"
  defines "userId \<equiv> attr metadata ''__userbase_user_id''"
  defines "adminId \<equiv> attr metadata ''__userbase_admin_id''"
  defines "appId \<equiv> attr metadata ''__userbase_app_id''"
  assumes found: "getUserByUserId w userId = Inr (Some user)"
    and stored: "map_of (users w) (attr user ''username'', attr user ''app-id'') = Some it"
    and t: "it (env_prefix @ ''-stripe-event-timestamp'') = Some t"
    and stale: "\<not> ddb_lt t ts"
  shows "fst r = w
       \<and> (snd r = Inr () \<or> snd r = Inl ConditionalCheckFailedException)
       \<and> (snd r = Inl ConditionalCheckFailedException \<longleftrightarrow>
            truthy userId \<and> truthy appId \<and> truthy adminId
            \<and> (\<exists>admin app. admins w adminId = Some admin \<and> apps w appId = Some app
                  \<and> attr app ''admin-id'' = adminId
                  \<and> attr user ''app-id'' = appId
                  \<and> attr admin ''stripe-account-id'' = stripeAccountId
                  \<and> attr app (env_prefix @ ''-subscription-plan-id'') = subscriptionPlanId))"
proof -
  have up: "ddb_up w" using found by (rule getUserByUserId_up)
  have upd: "ddb_update_user w
           (buildStripeSubscriptionDdbParams user customerId subscriptionId subscriptionPlanId
              status cancelAt ts isProduction) = Inl ConditionalCheckFailedException"
    using stale_update_fails[OF stored _ stale up] t unfolding env_prefix_def by simp
  note tr = updateSubscriptionInDdb_try_found[OF found[unfolded userId_def], of customerId
      subscriptionId subscriptionPlanId status cancelAt ts isProduction stripeAccountId]
  show ?thesis
    unfolding r_def updateSubscriptionInDdb_def tr upd
    unfolding userId_def adminId_def appId_def env_prefix_def
    by (auto split: option.splits simp del: append.simps)
qed


lemma ex_sub_lookup:
  "getUserByUserId ex_world_sub (attr ex_metadata ''__userbase_user_id'') = Inr (Some ex_user_sub)"
  "admins ex_world_sub (attr ex_metadata ''__userbase_admin_id'') = Some ex_admin"
  "apps ex_world_sub (attr ex_metadata ''__userbase_app_id'') = Some ex_app"
  by (simp_all add: getUserByUserId_def ddb_query_def ex_world_sub_def ex_world_def
        ex_metadata_def attr_def ex_user_sub_def)

lemma ex_sub_integrity:
  "truthy (attr ex_metadata ''__userbase_user_id'')"
  "truthy (attr ex_metadata ''__userbase_app_id'')"
  "truthy (attr ex_metadata ''__userbase_admin_id'')"
  "attr ex_app ''admin-id'' = attr ex_metadata ''__userbase_admin_id''"
  "attr ex_user_sub ''app-id'' = attr ex_metadata ''__userbase_app_id''"
  "attr ex_admin ''stripe-account-id'' = JStr ''acct_1''"
  "attr ex_app ''test-subscription-plan-id'' = JStr ''plan_A''"
  by (simp_all add: ex_metadata_def ex_app_def ex_admin_def ex_user_sub_def attr_def)

theorem updateSubscriptionInDdb_stale_event_witness:
  "updateSubscriptionInDdb ex_metadata (JStr ''cus_1'') (JStr ''sub_1'') (JStr ''plan_A'')
     (JStr ''past_due'') JUndefined (JNum 100) False (JStr ''acct_1'') ex_world_sub
   = (ex_world_sub, Inl ConditionalCheckFailedException)"
proof -
  have "\<not> ddb_lt (JNum 200) (JNum 100)" by simp
  from updateSubscriptionInDdb_stale_event[where isProduction = False, simplified,
         OF ex_sub_lookup(1) ex_sub_stored(1) ex_sub_stored(2) this,
         of "JStr ''cus_1''" "JStr ''sub_1''" "JStr ''plan_A''" "JStr ''past_due''" JUndefined
            "JStr ''acct_1''"]
  show ?thesis
    using ex_sub_lookup(2,3) ex_sub_integrity by (simp add: prod_eq_iff)
qed

text \<open>
  A stale event is not skipped silently: an event that passes every integrity check and
  carries the timestamp already stored makes \<open>updateSubscriptionInDdb\<close> throw.
\<close>

theorem updateSubscriptionInDdb_stale_counterexample:
  "snd (updateSubscriptionInDdb ex_metadata (JStr ''cus_1'') (JStr ''sub_1'') (JStr ''plan_A'')
          (JStr ''canceled'') JUndefined (JNum 200) False (JStr ''acct_1'') ex_world_sub)
     = Inl ConditionalCheckFailedException
   \<and> snd (updateSubscriptionInDdb ex_metadata (JStr ''cus_1'') (JStr ''sub_1'') (JStr ''plan_A'')
          (JStr ''canceled'') JUndefined (JNum 200) False (JStr ''acct_1'') ex_world_sub)
     \<noteq> Inr ()"
proof -
  have upd: "ddb_update_user ex_world_sub
           (buildStripeSubscriptionDdbParams ex_user_sub (JStr ''cus_1'') (JStr ''sub_1'')
              (JStr ''plan_A'') (JStr ''canceled'') JUndefined (JNum 200) False)
         = Inl ConditionalCheckFailedException"
    using stale_update_fails[OF ex_sub_stored(1), where isProduction = False and t = "JNum 200"
            and stripeEventTimestamp = "JNum 200"] ex_sub_stored
    by simp
  show ?thesis
    unfolding updateSubscriptionInDdb_def updateSubscriptionInDdb_try_found[OF ex_sub_lookup(1)]
    using ex_sub_lookup(2,3) ex_sub_integrity upd by simp
qed

section \<open>Password check: lockout and temporary password\<close>

lemma allowUserToRetryPassword_stored:
  assumes "ddb_up w"
  shows "\<exists>it. map_of (users (allowUserToRetryPassword user w))
                 (attr user ''username'', attr user ''app-id'') = Some it
              \<and> it ''suspended-at'' = None
              \<and> it ''incorrect-password-attempts-in-a-row'' = Some (JNum 0)"
  using assms
  by (simp add: allowUserToRetryPassword_def fire_and_forget_def ddb_update_def update_conv')

lemma allowUserToRetryPassword_at_key:
  "map_of (users (allowUserToRetryPassword user w)) (attr user ''username'', attr user ''app-id'')
     = (if ddb_up w then
          Some (((case map_of (users w) (attr user ''username'', attr user ''app-id'') of
                    None \<Rightarrow> user_key_attrs (attr user ''username'') (attr user ''app-id'')
                  | Some it \<Rightarrow> it)(''suspended-at'' := None))
                 (''incorrect-password-attempts-in-a-row'' \<mapsto> JNum 0))
        else map_of (users w) (attr user ''username'', attr user ''app-id''))"
  by (simp add: allowUserToRetryPassword_def fire_and_forget_def ddb_update_def update_conv')

lemma suspendUser_at_key:
  "map_of (users (suspendUser e user w)) (attr user ''username'', attr user ''app-id'')
     = (if ddb_up w then
          Some ((case map_of (users w) (attr user ''username'', attr user ''app-id'') of
                   None \<Rightarrow> user_key_attrs (attr user ''username'') (attr user ''app-id'')
                 | Some it \<Rightarrow> it)(''suspended-at'' \<mapsto> JStr (toISOString e (now e))))
        else map_of (users w) (attr user ''username'', attr user ''app-id''))"
  by (simp add: suspendUser_def fire_and_forget_def ddb_update_def update_conv')

lemma incrementIncorrectPasswordAttempt_at_key:
  "map_of (users (incrementIncorrectPasswordAttempt user w))
       (attr user ''username'', attr user ''app-id'')
     = (if ddb_up w \<and> addOne (map_of (users w) (attr user ''username'', attr user ''app-id''))
        then
          Some (let it = (case map_of (users w) (attr user ''username'', attr user ''app-id'') of
                            None \<Rightarrow> user_key_attrs (attr user ''username'') (attr user ''app-id'')
                          | Some it \<Rightarrow> it)
                in it(''incorrect-password-attempts-in-a-row'' \<mapsto>
                        (case it ''incorrect-password-attempts-in-a-row'' of
                           Some (JNum n) \<Rightarrow> JNum (n + 1) | _ \<Rightarrow> JNum 1)))
        else map_of (users w) (attr user ''username'', attr user ''app-id''))"
  by (simp add: incrementIncorrectPasswordAttempt_def fire_and_forget_def ddb_update_def
        update_conv' Let_def)

lemma lockout_consistent_cleared:
  "lockout_consistent ((it(''suspended-at'' := None))
                         (''incorrect-password-attempts-in-a-row'' \<mapsto> JNum 0))"
  by (simp add: lockout_consistent_def attr_def)

lemma lockout_consistent_suspended:
  assumes "js_ge (attr it ''incorrect-password-attempts-in-a-row'') MAX_INCORRECT_PASSWORD_GUESSES"
  shows "lockout_consistent (it(''suspended-at'' \<mapsto> v))"
  using assms by (simp add: lockout_consistent_def attr_def)

lemma lockout_consistent_incremented:
  assumes "lockout_consistent it" and "addOne (Some it)"
  shows "lockout_consistent
           (it(''incorrect-password-attempts-in-a-row'' \<mapsto>
                 (case it ''incorrect-password-attempts-in-a-row'' of
                    Some (JNum n) \<Rightarrow> JNum (n + 1) | _ \<Rightarrow> JNum 1)))"
proof (cases "it ''incorrect-password-attempts-in-a-row''")
  case None
  with assms show ?thesis by (simp add: lockout_consistent_def attr_def split: if_splits)
next
  case (Some v)
  with assms show ?thesis
    by (cases v) (auto simp: lockout_consistent_def attr_def addOne_def split: if_splits)
qed

lemma incrementIncorrectPasswordAttempt_consistent:
  assumes "map_of (users w) (attr user ''username'', attr user ''app-id'') = Some st"
    and "lockout_consistent st"
    and "map_of (users (incrementIncorrectPasswordAttempt user w))
           (attr user ''username'', attr user ''app-id'') = Some it"
  shows "lockout_consistent it"
  using assms lockout_consistent_incremented[of st]
  unfolding incrementIncorrectPasswordAttempt_at_key
  by (auto simp: Let_def split: if_splits)

lemma checkPasswordToken_consistent:
  assumes "map_of (users w) (attr user ''username'', attr user ''app-id'') = Some st"
    and "lockout_consistent st"
    and "checkPasswordToken e passwordToken user w = (w', r)"
    and "map_of (users w') (attr user ''username'', attr user ''app-id'') = Some it"
  shows "lockout_consistent it"
proof -
  have "w' = w \<or> w' = allowUserToRetryPassword user w
        \<or> w' = incrementIncorrectPasswordAttempt user w"
    using assms(3) unfolding checkPasswordToken_def Let_def
    by (auto split: option.splits bool.splits if_splits)
  then show ?thesis
  proof (elim disjE)
    assume "w' = w" with assms show ?thesis by simp
  next
    assume "w' = allowUserToRetryPassword user w"
    with assms(1,2,4) show ?thesis
      by (auto simp: allowUserToRetryPassword_at_key lockout_consistent_cleared
            split: if_splits)
  next
    assume "w' = incrementIncorrectPasswordAttempt user w"
    with assms show ?thesis using incrementIncorrectPasswordAttempt_consistent by blast
  qed
qed

text \<open>
  A password check on a freshly read, consistent record leaves the record under that key
  consistent, whichever bookkeeping writes it issues.
\<close>

lemma validatePassword_keeps_lockout_consistent:
  assumes stored: "map_of (users w) (attr user ''username'', attr user ''app-id'') = Some user"
    and inv: "lockout_consistent user"
    and run: "validatePassword e passwordToken (Some user) w = (w', r)"
    and after: "map_of (users w') (attr user ''username'', attr user ''app-id'') = Some it"
  shows "lockout_consistent it"
proof (cases "js_ge (attr user ''incorrect-password-attempts-in-a-row'')
                MAX_INCORRECT_PASSWORD_GUESSES")
  case False
  with run have "checkPasswordToken e passwordToken user w = (w', r)"
    by (simp add: validatePassword_def)
  from checkPasswordToken_consistent[OF stored inv this after] show ?thesis .
next
  case locked: True
  show ?thesis
  proof (cases "truthy (attr user ''suspended-at'')")
    case False
    with locked run have "w' = suspendUser e user w"
      by (simp add: validatePassword_def Let_def)
    with after stored inv show ?thesis
      by (auto simp: suspendUser_at_key lockout_consistent_suspended[OF locked]
            split: if_splits)
  next
    case True
    show ?thesis
    proof (cases "elapsed_lt e (attr user ''suspended-at'') MS_IN_A_DAY")
      case True
      with \<open>truthy (attr user ''suspended-at'')\<close> locked run have "w' = w"
        by (simp add: validatePassword_def Let_def)
      with after stored inv show ?thesis by simp
    next
      case False
      with \<open>truthy (attr user ''suspended-at'')\<close> locked run
      have c: "checkPasswordToken e passwordToken user (allowUserToRetryPassword user w) = (w', r)"
        by (simp add: validatePassword_def Let_def)
      obtain st where st: "map_of (users (allowUserToRetryPassword user w))
                             (attr user ''username'', attr user ''app-id'') = Some st"
        and "lockout_consistent st"
        using stored inv lockout_consistent_cleared
        by (cases "ddb_up w") (auto simp: allowUserToRetryPassword_at_key)
      from checkPasswordToken_consistent[OF st this(2) c after] show ?thesis .
    qed
  qed
qed

text \<open>
  Claim C3. Take a user record whose lockout attributes are consistent. If its counter
  of incorrect attempts has reached 25 and it is not suspended yet, the next password
  check suspends it and fails with \<open>PasswordAttemptLimitExceeded\<close> and the delay
  \<open>24 hours\<close>, whatever password is supplied, the correct one included; so does every
  check while the suspension is less than 24 hours old. If \<open>suspended-at\<close> is at least
  24 hours old, the next check first issues the write that removes \<open>suspended-at\<close> and
  sets the counter to 0, and then evaluates the supplied password as for a user that is
  not locked.
\<close>

theorem password_lockout:
  fixes e passwordToken user w
  defines "r \<equiv> validatePassword e passwordToken (Some user) w"
  defines "limitExceeded \<equiv> Thrown (JObj [(''error'', JStr ''PasswordAttemptLimitExceeded''),
                                          (''delay'', JStr ''24 hours'')])"
  assumes inv: "lockout_consistent user"
  shows "(\<forall>n. attr user ''incorrect-password-attempts-in-a-row'' = JNum n
               \<and> n \<ge> MAX_INCORRECT_PASSWORD_GUESSES \<and> user ''suspended-at'' = None \<longrightarrow>
            r = (suspendUser e user w, Inl limitExceeded))
       \<and> (\<forall>n s t. attr user ''incorrect-password-attempts-in-a-row'' = JNum n
                 \<and> n \<ge> MAX_INCORRECT_PASSWORD_GUESSES
                 \<and> attr user ''suspended-at'' = JStr s \<and> parseDate e s = Some t
                 \<and> now e - t < MS_IN_A_DAY \<longrightarrow>
            snd r = Inl limitExceeded)
       \<and> (\<forall>s t. attr user ''suspended-at'' = JStr s \<and> s \<noteq> [] \<and> parseDate e s = Some t
                 \<and> now e - t \<ge> MS_IN_A_DAY \<longrightarrow>
            r = checkPasswordToken e passwordToken user (allowUserToRetryPassword user w)
            \<and> (ddb_up w \<longrightarrow>
                 (\<exists>it. map_of (users (allowUserToRetryPassword user w))
                          (attr user ''username'', attr user ''app-id'') = Some it
                       \<and> it ''suspended-at'' = None
                       \<and> it ''incorrect-password-attempts-in-a-row'' = Some (JNum 0))))"
proof (intro conjI impI allI)
  fix n
  assume "attr user ''incorrect-password-attempts-in-a-row'' = JNum n
            \<and> n \<ge> MAX_INCORRECT_PASSWORD_GUESSES \<and> user ''suspended-at'' = None"
  then show "r = (suspendUser e user w, Inl limitExceeded)"
    unfolding r_def limitExceeded_def validatePassword_def
    by (simp add: attr_def Let_def)
next
  fix n s t
  assume "attr user ''incorrect-password-attempts-in-a-row'' = JNum n
            \<and> n \<ge> MAX_INCORRECT_PASSWORD_GUESSES
            \<and> attr user ''suspended-at'' = JStr s \<and> parseDate e s = Some t
            \<and> now e - t < MS_IN_A_DAY"
  then show "snd r = Inl limitExceeded"
    unfolding r_def limitExceeded_def validatePassword_def
    by (simp add: Let_def elapsed_lt_def)
next
  fix s t
  assume a: "attr user ''suspended-at'' = JStr s \<and> s \<noteq> [] \<and> parseDate e s = Some t
            \<and> now e - t \<ge> MS_IN_A_DAY"
  with inv have "js_ge (attr user ''incorrect-password-attempts-in-a-row'')
                   MAX_INCORRECT_PASSWORD_GUESSES"
    by (simp add: lockout_consistent_def)
  with a show "r = checkPasswordToken e passwordToken user (allowUserToRetryPassword user w)"
    unfolding r_def validatePassword_def
    by (simp add: Let_def elapsed_lt_def)
  assume "ddb_up w"
  then show "\<exists>it. map_of (users (allowUserToRetryPassword user w))
                          (attr user ''username'', attr user ''app-id'') = Some it
                       \<and> it ''suspended-at'' = None
                       \<and> it ''incorrect-password-attempts-in-a-row'' = Some (JNum 0)"
    by (rule allowUserToRetryPassword_stored)
qed


lemma ex_locked_facts:
  "lockout_consistent ex_user_locked"
  "attr ex_user_locked ''incorrect-password-attempts-in-a-row'' = JNum 25"
  "ex_user_locked ''suspended-at'' = None"
  "lockout_consistent ex_user_suspended"
  "attr ex_user_suspended ''suspended-at'' = JStr ''2020-01-01T00:00:00.000Z''"
  "attr ex_user_suspended ''password-token'' = JBuf ''#secret''"
  "parseDate ex_env ''2020-01-01T00:00:00.000Z'' = Some 1577836800000"
  "now ex_env = 1577923200000"
  "sha256 ex_env (JStr ''secret'') = ''#secret''"
  by (simp_all add: ex_user_locked_def ex_user_suspended_def ex_env_def attr_def
        lockout_consistent_def MAX_INCORRECT_PASSWORD_GUESSES_def)

theorem password_lockout_witness:
  "snd (validatePassword ex_env (JStr ''secret'') (Some ex_user_locked) ex_world_locked)
     = Inl (Thrown (JObj [(''error'', JStr ''PasswordAttemptLimitExceeded''),
                          (''delay'', JStr ''24 hours'')]))
   \<and> snd (validatePassword ex_env (JStr ''secret'') (Some ex_user_suspended) ex_world_suspended)
     = Inr (JBool False)"
proof -
  have a: "snd (validatePassword ex_env (JStr ''secret'') (Some ex_user_locked) ex_world_locked)
     = Inl (Thrown (JObj [(''error'', JStr ''PasswordAttemptLimitExceeded''),
                          (''delay'', JStr ''24 hours'')]))"
    using password_lockout[OF ex_locked_facts(1), of ex_env "JStr ''secret''" ex_world_locked]
          ex_locked_facts
    by (simp add: MAX_INCORRECT_PASSWORD_GUESSES_def)
  have "validatePassword ex_env (JStr ''secret'') (Some ex_user_suspended) ex_world_suspended
     = checkPasswordToken ex_env (JStr ''secret'') ex_user_suspended
         (allowUserToRetryPassword ex_user_suspended ex_world_suspended)"
    using password_lockout[OF ex_locked_facts(4), of ex_env "JStr ''secret''" ex_world_suspended]
          ex_locked_facts
    by (simp add: MS_IN_A_DAY_def SECONDS_IN_A_DAY_def HOURS_IN_A_DAY_def)
  then have "snd (validatePassword ex_env (JStr ''secret'') (Some ex_user_suspended)
                    ex_world_suspended) = Inr (JBool False)"
    using ex_locked_facts by (simp add: checkPasswordToken_def)
  with a show ?thesis by simp
qed

lemma checkPasswordToken_temp:
  assumes "attr user ''password-token'' = JBuf ph" and "sha256 e passwordToken \<noteq> ph"
    and "attr user ''temp-password-token'' = JBuf th"
  shows "checkPasswordToken e passwordToken user w =
           (if sha256 e passwordToken \<noteq> th then
              (incrementIncorrectPasswordAttempt user w,
               Inl (Thrown (JObj [(''error'', JStr ''Incorrect password or temp password'')])))
            else if elapsed_gt e (attr user ''temp-password-creation-date'') MS_IN_A_DAY then
              (incrementIncorrectPasswordAttempt user w,
               Inl (Thrown (JObj [(''error'', JStr ''Temp password expired'')])))
            else (w, Inr (JBool True)))"
  using assms by (simp add: checkPasswordToken_def)

lemma validatePassword_not_locked:
  assumes "\<not> js_ge (attr user ''incorrect-password-attempts-in-a-row'')
               MAX_INCORRECT_PASSWORD_GUESSES"
  shows "validatePassword e passwordToken (Some user) w = checkPasswordToken e passwordToken user w"
  using assms by (simp add: validatePassword_def)

text \<open>
  Claim C4, as the code has it. Take a user that is not locked out, with a stored
  temporary password token and creation time, and a supplied token whose hash differs
  from the permanent password's. If the hash matches the temporary token, the check
  succeeds, returning the used-temp-password flag, exactly when at most 24 hours have
  elapsed since the creation time (24 hours exactly is still accepted), and fails with
  \<open>Temp password expired\<close> exactly when more than 24 hours have elapsed. If the hash
  does not match the temporary token either, the check fails with
  \<open>Incorrect password or temp password\<close>, a different error.
\<close>

theorem temp_password_expiry:
  fixes e passwordToken user w
  defines "r \<equiv> validatePassword e passwordToken (Some user) w"
  assumes notLocked: "\<not> js_ge (attr user ''incorrect-password-attempts-in-a-row'')
                          MAX_INCORRECT_PASSWORD_GUESSES"
    and perm: "attr user ''password-token'' = JBuf ph" "sha256 e passwordToken \<noteq> ph"
    and temp: "attr user ''temp-password-token'' = JBuf th"
    and created: "newDate e (attr user ''temp-password-creation-date'') = Some t"
  shows "(sha256 e passwordToken = th \<longrightarrow>
            (r = (w, Inr (JBool True)) \<longleftrightarrow> now e - t \<le> MS_IN_A_DAY)
            \<and> (snd r = Inl (Thrown (JObj [(''error'', JStr ''Temp password expired'')]))
                  \<longleftrightarrow> now e - t > MS_IN_A_DAY))
       \<and> (sha256 e passwordToken \<noteq> th \<longrightarrow>
            snd r = Inl (Thrown (JObj [(''error'', JStr ''Incorrect password or temp password'')])))
       \<and> Thrown (JObj [(''error'', JStr ''Temp password expired'')])
            \<noteq> Thrown (JObj [(''error'', JStr ''Incorrect password or temp password'')])"
  unfolding r_def validatePassword_not_locked[OF notLocked]
    checkPasswordToken_temp[OF perm temp] elapsed_gt_def created
  by auto

lemma ex_temp_facts:
  "\<not> js_ge (attr ex_user_temp ''incorrect-password-attempts-in-a-row'')
        MAX_INCORRECT_PASSWORD_GUESSES"
  "attr ex_user_temp ''password-token'' = JBuf ''#secret''"
  "attr ex_user_temp ''temp-password-token'' = JBuf ''#temp''"
  "newDate ex_env (attr ex_user_temp ''temp-password-creation-date'') = Some 1577836800000"
  "sha256 ex_env (JStr ''temp'') = ''#temp''"
  "now ex_env = 1577923200000"
  by (simp_all add: ex_user_temp_def ex_env_def attr_def)

theorem temp_password_expiry_witness:
  "validatePassword ex_env (JStr ''temp'') (Some ex_user_temp) ex_world_temp
     = (ex_world_temp, Inr (JBool True))"
  using temp_password_expiry[where e = ex_env and passwordToken = "JStr ''temp''"
          and user = ex_user_temp and w = ex_world_temp and ph = "''#secret''"
          and th = "''#temp''" and t = 1577836800000]
        ex_temp_facts
  by (simp add: MS_IN_A_DAY_def SECONDS_IN_A_DAY_def HOURS_IN_A_DAY_def)

text \<open>
  Exactly 24 hours after its creation, so not fewer than 24 hours, the temporary password
  is still accepted.
\<close>

theorem temp_password_24h_counterexample:
  "newDate ex_env (attr ex_user_temp ''temp-password-creation-date'') = Some 1577836800000
   \<and> \<not> (now ex_env - 1577836800000 < MS_IN_A_DAY)
   \<and> attr ex_user_temp ''temp-password-token'' = JBuf (sha256 ex_env (JStr ''temp''))
   \<and> validatePassword ex_env (JStr ''temp'') (Some ex_user_temp) ex_world_temp
       = (ex_world_temp, Inr (JBool True))"
  using ex_temp_facts ex_validatePassword_temp
  by (simp add: MS_IN_A_DAY_def SECONDS_IN_A_DAY_def HOURS_IN_A_DAY_def)

section \<open>Sign-up: a username that is already stored\<close>

lemma validateUsernameInput_ok:
  "validateUsernameInput username = Inr u \<Longrightarrow> \<exists>s. username = JStr s \<and> s \<noteq> []"
  unfolding validateUsernameInput_def by (cases username) (auto split: if_splits)

lemma validateSignUpInput_ok:
  assumes "validateSignUpInput e req = Inr u"
  shows "truthy (req_appId req)" "truthy (req_username req)" "truthy (req_passwordToken req)"
    "validateUsernameInput (req_username req) = Inr ()"
  using assms unfolding validateSignUpInput_def
  by (auto split: if_splits sum.splits)

lemma validateSubscription_failure:
  "validateSubscription e status cancelAt appId = Inl f \<Longrightarrow>
     f = Respond PaymentRequired (JStr ''TrialExceededLimit'')"
  unfolding validateSubscription_def by (auto simp: Let_def split: if_splits)

lemma lookupAppAndAdmin_up:
  "lookupAppAndAdmin w appId = Inr x \<Longrightarrow> ddb_up w"
  unfolding lookupAppAndAdmin_def getAppByAppId_def
  by (auto split: if_splits sum.splits option.splits)

lemma lookupAppAndAdmin_same:
  assumes "apps w' = apps w" and "admins w' = admins w" and "ddb_up w' = ddb_up w"
  shows "lookupAppAndAdmin w' appId = lookupAppAndAdmin w appId"
  unfolding lookupAppAndAdmin_def getAppByAppId_def findAdminByAdminId_def assms
  by (rule refl)

lemma buildSignUpItem_attrs:
  assumes "buildSignUpItem e req userId = Inr user" and "req_username req = JStr s"
  shows "user ''username'' = Some (JStr (toLowerCase e s))"
    "user ''app-id'' = Some (req_appId req)"
    "user ''user-id'' = Some userId"
    "user ''public-key'' = Some (req_publicKey req)"
    "user ''password-token'' = Some (JBuf (sha256 e (req_passwordToken req)))"
    "user ''seed-not-saved-yet'' = Some (JBool True)"
    "user ''incorrect-password-attempts-in-a-row'' = None"
    "user ''suspended-at'' = None"
    "user ''deleted'' = None"
  using assms unfolding buildSignUpItem_def Let_def
  by (auto split: sum.splits if_splits)


lemma buildSignUpItem_lockout_consistent:
  assumes "buildSignUpItem e req userId = Inr user"
  shows "lockout_consistent user"
proof -
  obtain s where "req_username req = JStr s"
    using assms unfolding buildSignUpItem_def
    by (cases "req_username req") (auto split: sum.splits)
  from buildSignUpItem_attrs(8)[OF assms this] show ?thesis
    by (simp add: lockout_consistent_def attr_def)
qed

lemma signUp_try_put:
  assumes "validateSignUpInput e req = Inr ()"
    and "lookupAppAndAdmin w (req_appId req) = Inr (app, admin)"
    and "validateSubscription e (attr admin ''stripe-saas-subscription-status'')
           (attr admin ''stripe-cancel-saas-subscription-at'') (req_appId req) = Inr ()"
    and "buildSignUpItem e req (JStr (uuidv4 e)) = Inr user"
  shows "signUp_try e req w =
           (case ddb_put (ddb_up w) (users w) (attr user ''username'', attr user ''app-id'') user
                   signUpCondition of
              Inl ConditionalCheckFailedException \<Rightarrow>
                (w, Inl (Respond Conflict (JStr ''UsernameAlreadyExists'')))
            | Inl ex \<Rightarrow> (w, Inl (Raise ex))
            | Inr tbl \<Rightarrow>
                (case createSession e (JStr (uuidv4 e)) (req_appId req) (w\<lparr>users := tbl\<rparr>) of
                   Inl ex \<Rightarrow> (w\<lparr>users := tbl\<rparr>, Inl (Raise ex))
                 | Inr (w2, session) \<Rightarrow>
                     (w2, Inr (JObj [(''userId'', JStr (uuidv4 e)),
                                     (''sessionId'', js_field session ''sessionId''),
                                     (''authToken'', js_field session ''authToken''),
                                     (''creationDate'', js_field session ''creationDate'')]))))"
  unfolding signUp_try_def Let_def using assms by simp

lemma signUp_try_success:
  assumes "signUp_try e req w = (w', Inr body)"
  shows "\<exists>app admin user tbl session.
           validateSignUpInput e req = Inr ()
         \<and> lookupAppAndAdmin w (req_appId req) = Inr (app, admin)
         \<and> validateSubscription e (attr admin ''stripe-saas-subscription-status'')
              (attr admin ''stripe-cancel-saas-subscription-at'') (req_appId req) = Inr ()
         \<and> buildSignUpItem e req (JStr (uuidv4 e)) = Inr user
         \<and> ddb_put (ddb_up w) (users w) (attr user ''username'', attr user ''app-id'') user
              signUpCondition = Inr tbl
         \<and> createSession e (JStr (uuidv4 e)) (req_appId req) (w\<lparr>users := tbl\<rparr>)
              = Inr (w', session)
         \<and> body = JObj [(''userId'', JStr (uuidv4 e)),
                        (''sessionId'', js_field session ''sessionId''),
                        (''authToken'', js_field session ''authToken''),
                        (''creationDate'', js_field session ''creationDate'')]"
  using assms unfolding signUp_try_def Let_def
  by (auto split: sum.splits prod.splits exn.splits)

lemma signUp_try_failure_status:
  assumes "signUp_try e req w = (w', Inl (Respond st msg))"
  shows "st \<noteq> Success"
  using assms unfolding signUp_try_def Let_def
  by (auto split: sum.splits prod.splits exn.splits
        dest: lookupAppAndAdmin_failure validateSubscription_failure)

lemma signUp_Success:
  assumes "signUp e req w = (w', (Success, body))"
  shows "signUp_try e req w = (w', Inr body)"
proof (cases "signUp_try e req w")
  case (Pair w0 r)
  show ?thesis
  proof (cases r)
    case (Inr res)
    with Pair assms show ?thesis by (simp add: signUp_def respond_def)
  next
    case (Inl f)
    show ?thesis
    proof (cases f)
      case (Respond st msg)
      with Pair Inl have "st \<noteq> Success" using signUp_try_failure_status by blast
      with Pair Inl Respond assms show ?thesis by (simp add: signUp_def respond_def)
    next
      case (Raise ex)
      with Pair Inl assms show ?thesis by (simp add: signUp_def respond_def)
    qed
  qed
qed


lemma createSession_up:
  assumes "ddb_up w"
  shows "createSession e userId appId w =
           Inr (w\<lparr>sessions := AList.update (JStr (randomSessionId e))
                    [''session-id'' \<mapsto> JStr (randomSessionId e),
                     ''auth-token'' \<mapsto> JStr (randomAuthToken e),
                     ''user-id'' \<mapsto> userId,
                     ''app-id'' \<mapsto> appId,
                     ''creation-date'' \<mapsto> JStr (toISOString e (now e)),
                     ''ttl'' \<mapsto> getTtl e SECONDS_IN_A_DAY] (sessions w)\<rparr>,
                JObj [(''sessionId'', JStr (randomSessionId e)),
                      (''authToken'', JStr (randomAuthToken e)),
                      (''creationDate'', JStr (toISOString e (now e)))])"
  using assms by (simp add: createSession_def ddb_put_def Let_def)

text \<open>
  Claim C7. Take a sign-up request that passes validation, for an app and admin that
  exist and are not deleted, within the trial limit, and let a user record be stored
  for the app id and the lower-cased username. If that record has no
  \<open>seed-not-saved-yet\<close> attribute, the sign-up fails with the conflict
  \<open>UsernameAlreadyExists\<close> and the store is unchanged. If the record still has the
  attribute, the sign-up succeeds and the record under that key is afterwards the new
  user item: the new user id, the request's public key and password token hash, and the
  bootstrap flag set again.
\<close>

theorem signUp_existing_username:
  assumes valid: "validateSignUpInput e req = Inr ()"
    and tenancy: "lookupAppAndAdmin w (req_appId req) = Inr (app, admin)"
    and trial: "validateSubscription e (attr admin ''stripe-saas-subscription-status'')
                  (attr admin ''stripe-cancel-saas-subscription-at'') (req_appId req) = Inr ()"
    and item: "buildSignUpItem e req (JStr (uuidv4 e)) = Inr user"
    and name: "req_username req = JStr s"
    and existing: "map_of (users w) (JStr (toLowerCase e s), req_appId req) = Some old"
    and keyed: "old ''username'' \<noteq> None"
  shows "(old ''seed-not-saved-yet'' = None \<longrightarrow>
            signUp e req w = (w, (Conflict, JStr ''UsernameAlreadyExists'')))
       \<and> (old ''seed-not-saved-yet'' \<noteq> None \<longrightarrow>
            (\<exists>w'. signUp e req w =
                     (w', (Success, JObj [(''userId'', JStr (uuidv4 e)),
                                          (''sessionId'', JStr (randomSessionId e)),
                                          (''authToken'', JStr (randomAuthToken e)),
                                          (''creationDate'', JStr (toISOString e (now e)))]))
                \<and> map_of (users w') (JStr (toLowerCase e s), req_appId req) = Some user)
            \<and> user ''user-id'' = Some (JStr (uuidv4 e))
            \<and> user ''public-key'' = Some (req_publicKey req)
            \<and> user ''password-token'' = Some (JBuf (sha256 e (req_passwordToken req)))
            \<and> user ''seed-not-saved-yet'' = Some (JBool True))"
proof -
  note a = buildSignUpItem_attrs[OF item name]
  have k: "attr user ''username'' = JStr (toLowerCase e s)" "attr user ''app-id'' = req_appId req"
    using a by (simp_all add: attr_def)
  have up: "ddb_up w" using tenancy by (rule lookupAppAndAdmin_up)
  note tr = signUp_try_put[OF valid tenancy trial item, unfolded k]
  have cond: "signUpCondition (Some old) = (old ''seed-not-saved-yet'' \<noteq> None)"
    using keyed by (simp add: signUpCondition_def attribute_not_exists_def attribute_exists_def)
  show ?thesis
  proof (intro conjI impI)
    assume "old ''seed-not-saved-yet'' = None"
    then show "signUp e req w = (w, (Conflict, JStr ''UsernameAlreadyExists''))"
      unfolding signUp_def tr using up existing cond
      by (simp add: ddb_put_def respond_def)
  next
    assume flag: "old ''seed-not-saved-yet'' \<noteq> None"
    let ?tbl = "AList.update (JStr (toLowerCase e s), req_appId req) user (users w)"
    have put: "ddb_put (ddb_up w) (users w) (JStr (toLowerCase e s), req_appId req) user
                 signUpCondition = Inr ?tbl"
      using up existing cond flag by (simp add: ddb_put_def)
    have up1: "ddb_up (w\<lparr>users := ?tbl\<rparr>)" using up by simp
    show "\<exists>w'. signUp e req w =
                     (w', (Success, JObj [(''userId'', JStr (uuidv4 e)),
                                          (''sessionId'', JStr (randomSessionId e)),
                                          (''authToken'', JStr (randomAuthToken e)),
                                          (''creationDate'', JStr (toISOString e (now e)))]))
                \<and> map_of (users w') (JStr (toLowerCase e s), req_appId req) = Some user"
      unfolding signUp_def tr put
      by (simp add: createSession_up[OF up1] respond_def update_conv')
  qed (use a in simp_all)
qed


lemma ex_signup_valid:
  "validateSignUpInput ex_env ex_signup_req = Inr ()"
  by (simp add: validateSignUpInput_def ex_signup_req_def validateUsernameInput_def
        MAX_USERNAME_CHAR_LENGTH_def)

lemma ex_signup_tenancy:
  "lookupAppAndAdmin ex_world_enrolled (req_appId ex_signup_req) = Inr (ex_app, ex_admin)"
  "lookupAppAndAdmin ex_world_unenrolled (req_appId ex_signup_req) = Inr (ex_app, ex_admin)"
  by (simp_all add: lookupAppAndAdmin_def getAppByAppId_def findAdminByAdminId_def
        ex_world_enrolled_def ex_world_unenrolled_def ex_world_def ex_signup_req_def
        ex_app_def ex_admin_def attr_def)

lemma ex_signup_trial:
  "validateSubscription ex_env (attr ex_admin ''stripe-saas-subscription-status'')
     (attr ex_admin ''stripe-cancel-saas-subscription-at'') (req_appId ex_signup_req) = Inr ()"
  by (simp add: validateSubscription_def ex_admin_def attr_def)

lemma ex_signup_item:
  "\<exists>user. buildSignUpItem ex_env ex_signup_req (JStr (uuidv4 ex_env)) = Inr user"
  by (simp add: buildSignUpItem_def ex_signup_req_def Let_def)

lemma ex_signup_existing:
  "req_username ex_signup_req = JStr ''bob''"
  "toLowerCase ex_env ''bob'' = ''bob''"
  "req_appId ex_signup_req = JStr ''app1''"
  "map_of (users ex_world_enrolled) (JStr ''bob'', JStr ''app1'')
     = Some (ex_user_unenrolled(''seed-not-saved-yet'' := None))"
  "map_of (users ex_world_unenrolled) (JStr ''bob'', JStr ''app1'') = Some ex_user_unenrolled"
  "ex_user_unenrolled ''username'' \<noteq> None"
  "ex_user_unenrolled ''seed-not-saved-yet'' \<noteq> None"
  by (simp_all add: ex_signup_req_def ex_env_def ex_world_enrolled_def ex_world_unenrolled_def
        ex_user_unenrolled_def)

theorem signUp_existing_username_witness:
  "signUp ex_env ex_signup_req ex_world_enrolled
     = (ex_world_enrolled, (Conflict, JStr ''UsernameAlreadyExists''))
   \<and> fst (snd (signUp ex_env ex_signup_req ex_world_unenrolled)) = Success
   \<and> (case map_of (users (fst (signUp ex_env ex_signup_req ex_world_unenrolled)))
              (JStr ''bob'', JStr ''app1'') of
         None \<Rightarrow> False
       | Some it \<Rightarrow> it ''user-id'' = Some (JStr (uuidv4 ex_env))
                    \<and> it ''public-key'' = Some (JStr ''pk-new''))"
proof -
  obtain user where item: "buildSignUpItem ex_env ex_signup_req (JStr (uuidv4 ex_env)) = Inr user"
    using ex_signup_item by blast
  have pk: "req_publicKey ex_signup_req = JStr ''pk-new''" by (simp add: ex_signup_req_def)
  have c: "signUp ex_env ex_signup_req ex_world_enrolled
     = (ex_world_enrolled, (Conflict, JStr ''UsernameAlreadyExists''))"
    using signUp_existing_username[OF ex_signup_valid ex_signup_tenancy(1) ex_signup_trial item
            ex_signup_existing(1), of "ex_user_unenrolled(''seed-not-saved-yet'' := None)"]
          ex_signup_existing
    by simp
  have "(\<exists>w'. signUp ex_env ex_signup_req ex_world_unenrolled =
                     (w', (Success, JObj [(''userId'', JStr (uuidv4 ex_env)),
                                          (''sessionId'', JStr (randomSessionId ex_env)),
                                          (''authToken'', JStr (randomAuthToken ex_env)),
                                          (''creationDate'',
                                             JStr (toISOString ex_env (now ex_env)))]))
                \<and> map_of (users w') (JStr ''bob'', JStr ''app1'') = Some user)
        \<and> user ''user-id'' = Some (JStr (uuidv4 ex_env))
        \<and> user ''public-key'' = Some (JStr ''pk-new'')"
    using signUp_existing_username[OF ex_signup_valid ex_signup_tenancy(2) ex_signup_trial item
            ex_signup_existing(1), of ex_user_unenrolled]
          ex_signup_existing pk
    by simp
  then show ?thesis using c by auto
qed


section \<open>Sign-up followed by sign-in\<close>

lemma signInResult_userId:
  "js_field (signInResult session user usedTempPassword) ''userId'' = attr user ''user-id''"
  by (simp add: signInResult_def)

lemma allowUserToRetryPassword_up:
  "ddb_up (allowUserToRetryPassword user w) = ddb_up w"
  by (simp add: allowUserToRetryPassword_def fire_and_forget_def ddb_update_def)

text \<open>
  Claim C8. If a sign-up succeeds and returns user id \<open>u\<close>, then a sign-in to the same
  app with the same username and the same password token, run on the store exactly as the
  sign-up left it (at any later time and with any fresh random values), succeeds and
  returns \<open>u\<close>.
\<close>

theorem signUp_then_signIn:
  assumes signedUp: "signUp e req w = (w', (Success, body))"
    and sameHash: "sha256 e' = sha256 e"
    and sameLower: "toLowerCase e' = toLowerCase e"
  shows "js_field body ''userId'' = JStr (uuidv4 e)
       \<and> (\<exists>w'' body'.
             signIn e' (req_appId req) (req_username req) (req_passwordToken req) w'
               = (w'', (Success, body'))
             \<and> js_field body' ''userId'' = JStr (uuidv4 e))"
proof -
  from signUp_try_success[OF signUp_Success[OF signedUp]]
  obtain app admin user tbl session where
    valid: "validateSignUpInput e req = Inr ()"
    and tenancy: "lookupAppAndAdmin w (req_appId req) = Inr (app, admin)"
    and item: "buildSignUpItem e req (JStr (uuidv4 e)) = Inr user"
    and put: "ddb_put (ddb_up w) (users w) (attr user ''username'', attr user ''app-id'') user
                signUpCondition = Inr tbl"
    and session: "createSession e (JStr (uuidv4 e)) (req_appId req) (w\<lparr>users := tbl\<rparr>)
                    = Inr (w', session)"
    and body: "body = JObj [(''userId'', JStr (uuidv4 e)),
                            (''sessionId'', js_field session ''sessionId''),
                            (''authToken'', js_field session ''authToken''),
                            (''creationDate'', js_field session ''creationDate'')]"
    by blast
  note ok = validateSignUpInput_ok[OF valid]
  obtain s where name: "req_username req = JStr s"
    using validateUsernameInput_ok[OF ok(4)] by blast
  note a = buildSignUpItem_attrs[OF item name]
  have k: "attr user ''username'' = JStr (toLowerCase e s)" "attr user ''app-id'' = req_appId req"
    and uid: "attr user ''user-id'' = JStr (uuidv4 e)"
    and fresh: "attr user ''incorrect-password-attempts-in-a-row'' = JUndefined"
               "attr user ''deleted'' = JUndefined"
    and pw: "attr user ''password-token'' = JBuf (sha256 e (req_passwordToken req))"
    using a by (simp_all add: attr_def)
  have up: "ddb_up w" using tenancy by (rule lookupAppAndAdmin_up)
  have tbl: "tbl = AList.update (JStr (toLowerCase e s), req_appId req) user (users w)"
    using put up unfolding k by (auto simp: ddb_put_def split: if_splits)
  have up1: "ddb_up (w\<lparr>users := tbl\<rparr>)" using up by simp
  have w': "users w' = tbl" "apps w' = apps w" "admins w' = admins w" "ddb_up w'"
    using session up unfolding createSession_up[OF up1] by auto
  have tenancy': "lookupAppAndAdmin w' (req_appId req) = Inr (app, admin)"
    using lookupAppAndAdmin_same[of w' w] w' up tenancy by simp
  have found: "getUser w' (req_appId req) (JStr (toLowerCase e s)) = Inr (Some user)"
    using w' by (simp add: getUser_def ddb_get_def tbl update_conv')
  have check: "validatePassword e' (req_passwordToken req) (Some user) w'
                 = (allowUserToRetryPassword user w', Inr (JBool False))"
    using fresh pw sameHash
    by (simp add: validatePassword_def checkPasswordToken_def)
  have up2: "ddb_up (allowUserToRetryPassword user w')"
    using w' by (simp add: allowUserToRetryPassword_up)
  have "signIn_try e' (req_appId req) (req_username req) (req_passwordToken req) w'
          = (fst (projr (createSession e' (JStr (uuidv4 e)) (req_appId req)
                           (allowUserToRetryPassword user w'))),
             Inr (signInResult
                    (snd (projr (createSession e' (JStr (uuidv4 e)) (req_appId req)
                                   (allowUserToRetryPassword user w'))))
                    user (JBool False)))"
    unfolding signIn_try_def
    using ok tenancy' found check fresh uid name sameLower
    by (simp add: createSession_up[OF up2])
  then have "signIn e' (req_appId req) (req_username req) (req_passwordToken req) w'
          = (fst (projr (createSession e' (JStr (uuidv4 e)) (req_appId req)
                           (allowUserToRetryPassword user w'))),
             (Success, signInResult
                    (snd (projr (createSession e' (JStr (uuidv4 e)) (req_appId req)
                                   (allowUserToRetryPassword user w'))))
                    user (JBool False)))"
    by (simp add: signIn_def respond_def)
  moreover have "js_field (signInResult
                    (snd (projr (createSession e' (JStr (uuidv4 e)) (req_appId req)
                                   (allowUserToRetryPassword user w'))))
                    user (JBool False)) ''userId'' = JStr (uuidv4 e)"
    by (simp add: signInResult_userId uid)
  ultimately show ?thesis using body by auto
qed


lemma ex_signup_fresh:
  "fst (snd (signUp ex_env ex_signup_req ex_world)) = Success"
proof -
  obtain user where item: "buildSignUpItem ex_env ex_signup_req (JStr (uuidv4 ex_env)) = Inr user"
    using ex_signup_item by blast
  have t: "lookupAppAndAdmin ex_world (req_appId ex_signup_req) = Inr (ex_app, ex_admin)"
    by (simp add: lookupAppAndAdmin_def getAppByAppId_def findAdminByAdminId_def
          ex_world_def ex_signup_req_def ex_app_def ex_admin_def attr_def)
  have u: "ddb_up ex_world" "users ex_world = []" by (simp_all add: ex_world_def)
  have u1: "\<And>tbl. ddb_up (ex_world\<lparr>users := tbl\<rparr>)" by (simp add: ex_world_def)
  show ?thesis
    unfolding signUp_def signUp_try_put[OF ex_signup_valid t ex_signup_trial item]
    by (simp add: ddb_put_def u signUpCondition_def attribute_not_exists_def
          attribute_exists_def createSession_up[OF u1] respond_def)
qed

theorem signUp_then_signIn_witness:
  "fst (snd (signUp ex_env ex_signup_req ex_world)) = Success
   \<and> fst (snd (signIn ex_env_later (JStr ''app1'') (JStr ''bob'') (JStr ''correct horse'')
                  (fst (signUp ex_env ex_signup_req ex_world)))) = Success
   \<and> js_field (snd (snd (signIn ex_env_later (JStr ''app1'') (JStr ''bob'')
                            (JStr ''correct horse'')
                            (fst (signUp ex_env ex_signup_req ex_world))))) ''userId''
       = JStr (uuidv4 ex_env)"
proof -
  let ?r = "signUp ex_env ex_signup_req ex_world"
  have "?r = (fst ?r, (Success, snd (snd ?r)))"
    using ex_signup_fresh by (metis prod.collapse)
  from signUp_then_signIn[OF this, of ex_env_later]
  show ?thesis
    using ex_signup_fresh by (auto simp: ex_env_later_def ex_signup_req_def)
qed

end
